theory Spec2Isabelle
  imports Complex_Main
begin

section \<open>JavaScript values used by the player\<close>

text \<open>
  Strings are lists of characters with codes below 256. A value that may be \<^verbatim>\<open>null\<close> or \<^verbatim>\<open>undefined\<close> is an
  option. The helpers below are the JavaScript built-ins that \<^verbatim>\<open>player.js\<close> and the
  application module call, written after the ECMAScript definitions.
\<close>

definition truthy :: "string option \<Rightarrow> bool" where
  "truthy v = (case v of None \<Rightarrow> False | Some s \<Rightarrow> s \<noteq> [])"

text \<open>\<^verbatim>\<open>a || b\<close> on nullable strings.\<close>

definition js_or :: "string option \<Rightarrow> string option \<Rightarrow> string option" where
  "js_or a b = (if truthy a then a else b)"

text \<open>A nullable string inside a template literal.\<close>

definition template :: "string option \<Rightarrow> string" where
  "template v = (case v of None \<Rightarrow> ''undefined'' | Some s \<Rightarrow> s)"

definition startsWith :: "string \<Rightarrow> string \<Rightarrow> bool" where
  "startsWith s p = (take (length p) s = p)"

fun includes_str :: "string \<Rightarrow> string \<Rightarrow> bool" where
  "includes_str [] p = (p = [])"
| "includes_str (c # cs) p = (startsWith (c # cs) p \<or> includes_str cs p)"

text \<open>\<^verbatim>\<open>s.split(sep)\<close> for a separator of one character.\<close>

fun split_on :: "char \<Rightarrow> string \<Rightarrow> string list" where
  "split_on sep [] = [[]]"
| "split_on sep (c # cs) =
     (if c = sep then [] # split_on sep cs
      else (case split_on sep cs of [] \<Rightarrow> [[c]] | part # parts \<Rightarrow> (c # part) # parts))"

text \<open>\<^verbatim>\<open>xs[i]\<close>: \<^verbatim>\<open>undefined\<close> out of range.\<close>

definition index :: "'a list \<Rightarrow> nat \<Rightarrow> 'a option" where
  "index xs i = (if i < length xs then Some (xs ! i) else None)"

fun join :: "string \<Rightarrow> string list \<Rightarrow> string" where
  "join sep [] = []"
| "join sep [x] = x"
| "join sep (x # y # ys) = x @ sep @ join sep (y # ys)"

fun digits :: "nat \<Rightarrow> string" where
  "digits n =
     (if n < 10 then [''0123456789'' ! n]
      else digits (n div 10) @ [''0123456789'' ! (n mod 10)])"

declare digits.simps [simp del]

definition int_to_string :: "int \<Rightarrow> string" where
  "int_to_string i = (if i < 0 then CHR ''-'' # digits (nat (- i)) else digits (nat i))"

subsection \<open>parseInt with radix 10\<close>

text \<open>
  \<^verbatim>\<open>parseInt(s, 10)\<close>: leading white space is skipped, one sign is read, then the longest
  run of decimal digits; no digit gives \<^verbatim>\<open>NaN\<close>, here \<open>None\<close>. The white space
  characters are those with a code below 256.
\<close>

definition StrWhiteSpaceChar :: "char \<Rightarrow> bool" where
  "StrWhiteSpaceChar c =
     (c \<in> set [CHR 0x09, CHR 0x0A, CHR 0x0B, CHR 0x0C, CHR 0x0D, CHR 0x20, CHR 0xA0])"

definition is_digit :: "char \<Rightarrow> bool" where
  "is_digit c = (c \<in> set ''0123456789'')"

definition digit_value :: "char \<Rightarrow> nat" where
  "digit_value c = of_char c - 48"

definition parseInt10 :: "string \<Rightarrow> int option" where
  "parseInt10 inputString =
     (let S = dropWhile StrWhiteSpaceChar inputString;
          sign = (if S \<noteq> [] \<and> hd S = CHR ''-'' then - 1 else 1);
          S' = (if S \<noteq> [] \<and> (hd S = CHR ''+'' \<or> hd S = CHR ''-'') then tl S else S);
          Z = takeWhile is_digit S'
      in if Z = [] then None
         else Some (sign * int (foldl (\<lambda>acc c. 10 * acc + digit_value c) 0 Z)))"

subsection \<open>Numbers\<close>







section \<open>The remote service as seen through fetch\<close>

datatype http_method = GET | PUT

text \<open>
  A request is its URL, its method, its \<^verbatim>\<open>Authorization\<close> header and its body; the
  \<^verbatim>\<open>Content-Type\<close> header is the same on every request and is left out.
  The request bodies of \<^verbatim>\<open>player.js\<close>: \<open>TransferBody d p\<close> is
  \<^verbatim>\<open>JSON.stringify({device_ids: [d], play: p})\<close> and \<open>PlayBody u\<close> is
  \<^verbatim>\<open>JSON.stringify({uris: [u]})\<close>.
\<close>

datatype body = NoBody | TransferBody string bool | PlayBody string

record request =
  url :: string
  http_method :: http_method
  authorization :: string
  body :: body

record device =
  dev_id :: string
  dev_name :: string
  dev_type :: string
  is_active :: bool

text \<open>The fields of the remote track object that \<^verbatim>\<open>getTrackInfo\<close> reads.\<close>

record track_json =
  json_id :: string
  json_uri :: string
  json_name :: string
  json_artists :: "string list"
  json_album_name :: string
  json_images :: "string option list"
  json_release_date :: "string option"
  json_duration_ms :: int
  json_preview_url :: "string option"

text \<open>
  What \<^verbatim>\<open>response.json()\<close> gives: an object with a \<^verbatim>\<open>devices\<close> field (or without one),
  a track object, a profile with its \<^verbatim>\<open>display_name\<close>, or a body whose parsing throws
  with the given message. Reading the body is folded into the outcome of the fetch: no
  method touches its state between the two.
\<close>

datatype payload =
    DevicesJson "device list option"
  | TrackJson track_json
  | ProfileJson string
  | Unparsable string

text \<open>
  A response is its status and its body; \<^verbatim>\<open>response.ok\<close> holds for a status from 200
  to 299.
\<close>

type_synonym response = "nat \<times> payload"

definition status :: "response \<Rightarrow> nat" where
  "status r = fst r"

definition ok :: "response \<Rightarrow> bool" where
  "ok r = (200 \<le> fst r \<and> fst r \<le> 299)"

text \<open>A promise settles: it is fulfilled with a value or rejected with an error message.\<close>

datatype 'a settled = Fulfilled 'a | Rejected string

datatype error = Error string

fun message :: "error \<Rightarrow> string" where
  "message (Error m) = m"

section \<open>Asynchronous functions as resumable tasks\<close>

text \<open>
  An \<^verbatim>\<open>async\<close> function runs until its next \<^verbatim>\<open>await\<close> on the outside world and is
  resumed later with the outcome. \<open>Fetch req s k\<close> is a function suspended on the request
  \<open>req\<close>, having left the shared state \<open>s\<close>; when it is resumed, \<open>k\<close> receives the
  outcome and the state as it is then (other handlers may have run in between).
  \<open>Scanner\<close> is the same for a call of the external scanner. Between two such calls a
  function runs without interruption: an \<^verbatim>\<open>await\<close> on a function of the program itself
  gives no other handler a turn.
\<close>

datatype scanner_call = ScannerStart | ScannerStop

datatype ('s, 'a) task =
    Done 'a 's
  | Fetch request 's "response settled \<Rightarrow> 's \<Rightarrow> ('s, 'a) task"
  | Scanner scanner_call 's "unit settled \<Rightarrow> 's \<Rightarrow> ('s, 'a) task"

primrec bind :: "('s, 'a) task \<Rightarrow> ('a \<Rightarrow> 's \<Rightarrow> ('s, 'b) task) \<Rightarrow> ('s, 'b) task" where
  "bind (Done a s) f = f a s"
| "bind (Fetch req s k) f = Fetch req s (\<lambda>out s'. bind (k out s') f)"
| "bind (Scanner c s k) f = Scanner c s (\<lambda>out s'. bind (k out s') f)"

type_synonym 'a result = "error + 'a"

definition throw :: "string \<Rightarrow> 's \<Rightarrow> ('s, 'a result) task" where
  "throw msg s = Done (Inl (Error msg)) s"

definition return :: "'a \<Rightarrow> 's \<Rightarrow> ('s, 'a result) task" where
  "return a s = Done (Inr a) s"

text \<open>\<^verbatim>\<open>await t\<close> outside a \<^verbatim>\<open>try\<close>: an exception of \<open>t\<close> leaves the caller too.\<close>

definition await :: "('s, 'a result) task \<Rightarrow> ('a \<Rightarrow> 's \<Rightarrow> ('s, 'b result) task) \<Rightarrow> ('s, 'b result) task" where
  "await t f = bind t (\<lambda>r s. case r of Inl e \<Rightarrow> Done (Inl e) s | Inr a \<Rightarrow> f a s)"

section \<open>player.js: the SpotifyPlayer class\<close>

record track =
  track_id :: string
  track_uri :: string
  track_name :: string
  artists :: "string list"
  artistString :: string
  album :: string
  albumArt :: "string option"
  albumArtSmall :: "string option"
  year :: "int option"
  durationMs :: int
  previewUrl :: "string option"

record player =
  token :: string
  selectedDeviceId :: "string option"
  currentTrack :: "track option"
  isPlaying :: bool

definition API_BASE :: string where
  "API_BASE = ''https://api.spotify.com/v1''"

definition SpotifyPlayer :: "string \<Rightarrow> player" where
  "SpotifyPlayer accessToken =
     \<lparr>token = accessToken, selectedDeviceId = None, currentTrack = None, isPlaying = False\<rparr>"

definition apiRequest :: "string \<Rightarrow> http_method \<Rightarrow> body \<Rightarrow> player \<Rightarrow> (player, response result) task" where
  "apiRequest endpoint m b p =
     Fetch \<lparr>url = (if startsWith endpoint ''http'' then endpoint else API_BASE @ endpoint),
            http_method = m,
            authorization = ''Bearer '' @ token p,
            body = b\<rparr> p
       (\<lambda>out p'. case out of
            Rejected msg \<Rightarrow> throw msg p'
          | Fulfilled response \<Rightarrow>
              if status response = 401 then throw ''Token expired. Please log in again.'' p'
              else if status response = 403 then throw ''Premium required for playback control.'' p'
              else if status response = 404 then
                throw ''No active device found. Open Spotify on a device first.'' p'
              else return response p')"

text \<open>
  \<^verbatim>\<open>data.devices || []\<close>: any parsed object without a \<^verbatim>\<open>devices\<close> field gives the empty
  list.
\<close>

definition getDevices :: "player \<Rightarrow> (player, device list result) task" where
  "getDevices p =
     await (apiRequest ''/me/player/devices'' GET NoBody p) (\<lambda>response p'.
       if \<not> ok response then throw ''Failed to get devices'' p'
       else (case snd response of
               Unparsable msg \<Rightarrow> throw msg p'
             | DevicesJson (Some ds) \<Rightarrow> return ds p'
             | _ \<Rightarrow> return [] p'))"

definition setDevice :: "string \<Rightarrow> player \<Rightarrow> player" where
  "setDevice deviceId p = p\<lparr>selectedDeviceId := Some deviceId\<rparr>"

definition transferPlayback :: "string \<Rightarrow> bool \<Rightarrow> player \<Rightarrow> (player, unit result) task" where
  "transferPlayback deviceId play_flag p =
     await (apiRequest ''/me/player'' PUT (TransferBody deviceId play_flag) p) (\<lambda>response p'.
       if \<not> ok response \<and> status response \<noteq> 204 then throw ''Failed to transfer playback'' p'
       else return () (p'\<lparr>selectedDeviceId := Some deviceId\<rparr>))"

definition extractYear :: "string option \<Rightarrow> int option" where
  "extractYear releaseDate =
     (if \<not> truthy releaseDate then None
      else parseInt10 (take 4 (template releaseDate)))"

text \<open>\<^verbatim>\<open>images[i]?.url\<close>: the url of the i-th image when there is one.\<close>

definition image_url :: "string option list \<Rightarrow> nat \<Rightarrow> string option" where
  "image_url images i = (case index images i of None \<Rightarrow> None | Some u \<Rightarrow> u)"

definition track_of_json :: "track_json \<Rightarrow> track" where
  "track_of_json t =
     \<lparr>track_id = json_id t,
      track_uri = json_uri t,
      track_name = json_name t,
      artists = json_artists t,
      artistString = join '', '' (json_artists t),
      album = json_album_name t,
      albumArt = js_or (image_url (json_images t) 0) None,
      albumArtSmall = js_or (image_url (json_images t) 2) (js_or (image_url (json_images t) 0) None),
      year = extractYear (json_release_date t),
      durationMs = json_duration_ms t,
      previewUrl = json_preview_url t\<rparr>"

text \<open>
  The message of the \<^verbatim>\<open>TypeError\<close> that reading \<^verbatim>\<open>track.artists.map\<close> raises on an object
  that is no track (the text is the engine's).
\<close>

definition not_a_track :: string where
  "not_a_track = ''Cannot read properties of undefined (reading 'map')''"

definition getTrackInfo :: "string option \<Rightarrow> player \<Rightarrow> (player, track result) task" where
  "getTrackInfo trackId p =
     await (apiRequest (''/tracks/'' @ template trackId) GET NoBody p) (\<lambda>response p'.
       if \<not> ok response then throw ''Failed to get track info'' p'
       else (case snd response of
               Unparsable msg \<Rightarrow> throw msg p'
             | TrackJson t \<Rightarrow> return (track_of_json t) p'
             | _ \<Rightarrow> throw not_a_track p'))"

definition play :: "string \<Rightarrow> string option \<Rightarrow> player \<Rightarrow> (player, track result) task" where
  "play spotifyUri deviceId p =
     (let targetDevice = js_or deviceId (selectedDeviceId p);
          endpoint = ''/me/player/play'' @
            (if truthy targetDevice then ''?device_id='' @ template targetDevice else [])
      in await (apiRequest endpoint PUT (PlayBody spotifyUri) p) (\<lambda>response p1.
           if \<not> ok response \<and> status response \<noteq> 204 then
             (if status response = 404 then
                throw ''No active device. Open Spotify on your device first.'' p1
              else throw ''Failed to start playback'' p1)
           else
             (let p2 = p1\<lparr>isPlaying := True\<rparr>;
                  trackId = index (split_on CHR '':'' spotifyUri) 2
              in await (getTrackInfo trackId p2) (\<lambda>t p3.
                   return t (p3\<lparr>currentTrack := Some t\<rparr>)))))"

definition pause :: "player \<Rightarrow> (player, unit result) task" where
  "pause p =
     (let endpoint = ''/me/player/pause'' @
            (if truthy (selectedDeviceId p) then ''?device_id='' @ template (selectedDeviceId p)
             else [])
      in await (apiRequest endpoint PUT NoBody p) (\<lambda>response p'.
           if \<not> ok response \<and> status response \<noteq> 204 then throw ''Failed to pause playback'' p'
           else return () (p'\<lparr>isPlaying := False\<rparr>)))"

definition resume :: "player \<Rightarrow> (player, unit result) task" where
  "resume p =
     (let endpoint = ''/me/player/play'' @
            (if truthy (selectedDeviceId p) then ''?device_id='' @ template (selectedDeviceId p)
             else [])
      in await (apiRequest endpoint PUT NoBody p) (\<lambda>response p'.
           if \<not> ok response \<and> status response \<noteq> 204 then throw ''Failed to resume playback'' p'
           else return () (p'\<lparr>isPlaying := True\<rparr>)))"

definition togglePlayback :: "player \<Rightarrow> (player, bool result) task" where
  "togglePlayback p =
     await (if isPlaying p then pause p else resume p) (\<lambda>_ p'. return (isPlaying p') p')"

definition getUserProfile :: "player \<Rightarrow> (player, string option result) task" where
  "getUserProfile p =
     await (apiRequest ''/me'' GET NoBody p) (\<lambda>response p'.
       if \<not> ok response then throw ''Failed to get user profile'' p'
       else (case snd response of
               Unparsable msg \<Rightarrow> throw msg p'
             | ProfileJson display_name \<Rightarrow> return (Some display_name) p'
             | _ \<Rightarrow> return None p'))"



section \<open>ui.js: the page as state\<close>

text \<open>
  The application keeps its state in module-level variables, in the browser's storage and
  in the page. The record below holds all of it: the variables \<^verbatim>\<open>player\<close>, \<^verbatim>\<open>scanner\<close>,
  \<^verbatim>\<open>selectedDevice\<close> and \<^verbatim>\<open>isYearRevealed\<close>; the storage slot of the saved device and
  the token kept by the authentication module; and the parts of the page that the
  helpers of \<^verbatim>\<open>ui.js\<close> write. The elements that the code looks up by id are those of the
  page and are taken to exist. There is one player object: \<^verbatim>\<open>player\<close> is assigned once,
  at start-up.

  The device list and the start button are replaced by clones whenever the device
  selection is shown (\<^verbatim>\<open>setupDeviceHandlers\<close>); \<open>deviceElements\<close> counts the replacements,
  so that it names the elements that are the page's at the moment. \<open>devicesList\<close> and
  \<open>startBtnDisabled\<close> are the state of those.
\<close>

record toast =
  toast_message :: string
  toast_type :: string
  toast_duration :: nat

record saved_device =
  saved_id :: string
  saved_name :: string
  saved_type :: string

text \<open>The storage slot holds the JSON of a saved device, or text that does not parse.\<close>

datatype storage_entry = SavedJson saved_device | CorruptJson

datatype devices_view =
    LoadingDevices
  | NoDevicesFound
  | LoadFailed string
  | DeviceItems "(device \<times> bool) list"

record scanner_options =
  cooldownMs :: nat

record app =
  player :: "player option"
  scanner :: "scanner_options option"
  selectedDevice :: "device option"
  isYearRevealed :: bool
  storedToken :: "string option"
  localStorage_device :: "storage_entry option"
  screen :: string
  toasts :: "toast list"
  placeholderHidden :: bool
  contentHidden :: bool
  contentRevealed :: bool
  albumArtSrc :: string
  trackNameText :: string
  artistNameText :: string
  trackYearText :: string
  pauseIconHidden :: bool
  playIconHidden :: bool
  pauseBtnDisabled :: bool
  revealBtnHidden :: bool
  startBtnDisabled :: bool
  deviceNameText :: string
  devicesList :: devices_view
  deviceElements :: nat

definition showToast :: "string \<Rightarrow> string \<Rightarrow> nat \<Rightarrow> app \<Rightarrow> app" where
  "showToast msg type duration s =
     s\<lparr>toasts := toasts s @ [\<lparr>toast_message = msg, toast_type = type, toast_duration = duration\<rparr>]\<rparr>"

definition showScreen :: "string \<Rightarrow> app \<Rightarrow> app" where
  "showScreen screenId s = s\<lparr>screen := screenId\<rparr>"

text \<open>\<^verbatim>\<open>track.year || '???'\<close> as the text of the year element.\<close>

definition year_text :: "int option \<Rightarrow> string" where
  "year_text y = (case y of None \<Rightarrow> ''???'' | Some n \<Rightarrow> if n = 0 then ''???'' else int_to_string n)"

definition updateNowPlaying :: "track option \<Rightarrow> bool \<Rightarrow> app \<Rightarrow> app" where
  "updateNowPlaying t revealed s =
     (case t of
        None \<Rightarrow> s\<lparr>placeholderHidden := False, contentHidden := True\<rparr>
      | Some tr \<Rightarrow>
          s\<lparr>placeholderHidden := True, contentHidden := False,
            contentRevealed := revealed,
            albumArtSrc := template (js_or (albumArt tr) (Some [])),
            trackNameText := track_name tr,
            artistNameText := artistString tr,
            trackYearText := year_text (year tr)\<rparr>)"

definition revealSongInfo :: "app \<Rightarrow> app" where
  "revealSongInfo s = s\<lparr>contentRevealed := True\<rparr>"

definition updatePlayButton :: "bool \<Rightarrow> app \<Rightarrow> app" where
  "updatePlayButton playing s =
     s\<lparr>pauseIconHidden := \<not> playing, playIconHidden := playing, pauseBtnDisabled := False\<rparr>"

definition updateRevealButton :: "bool \<Rightarrow> bool \<Rightarrow> app \<Rightarrow> app" where
  "updateRevealButton hasTrack isRevealed s = s\<lparr>revealBtnHidden := (\<not> hasTrack \<or> isRevealed)\<rparr>"

definition setDeviceName :: "string \<Rightarrow> app \<Rightarrow> app" where
  "setDeviceName name s = s\<lparr>deviceNameText := template (js_or (Some name) (Some ''---''))\<rparr>"

section \<open>The application module\<close>

subsection \<open>Storage and the authentication module\<close>

definition saveDevice :: "device \<Rightarrow> app \<Rightarrow> app" where
  "saveDevice d s =
     s\<lparr>localStorage_device :=
         Some (SavedJson \<lparr>saved_id = dev_id d, saved_name = dev_name d, saved_type = dev_type d\<rparr>)\<rparr>"

definition getSavedDevice :: "app \<Rightarrow> saved_device option" where
  "getSavedDevice s =
     (case localStorage_device s of
        None \<Rightarrow> None
      | Some CorruptJson \<Rightarrow> None
      | Some (SavedJson d) \<Rightarrow> Some d)"

definition clearSavedDevice :: "app \<Rightarrow> app" where
  "clearSavedDevice s = s\<lparr>localStorage_device := None\<rparr>"

text \<open>
  Modelled from the spec: \<^verbatim>\<open>clearToken\<close> of the authentication module \<^verbatim>\<open>auth.js\<close>, which
  is not among the sources; the spec lists it beside \<^verbatim>\<open>getStoredToken\<close> as the operation
  that removes the stored token.
\<close>

definition clearToken :: "app \<Rightarrow> app" where
  "clearToken s = s\<lparr>storedToken := None\<rparr>"

subsection \<open>Calling the player from the application\<close>

text \<open>
  A method of the player object run inside the application: the object is the one in the
  variable \<^verbatim>\<open>player\<close>, so each state the method leaves is the application's state with
  the player replaced, and on resumption the method reads the player as it is then.
\<close>

definition this :: "app \<Rightarrow> player \<Rightarrow> player" where
  "this s p = (case player s of None \<Rightarrow> p | Some p' \<Rightarrow> p')"

primrec lift :: "(player, 'a) task \<Rightarrow> app \<Rightarrow> (app, 'a) task" where
  "lift (Done a p) s = Done a (s\<lparr>player := Some p\<rparr>)"
| "lift (Fetch req p k) s = Fetch req (s\<lparr>player := Some p\<rparr>) (\<lambda>out s'. lift (k out (this s' p)) s')"
| "lift (Scanner c p k) s = Scanner c (s\<lparr>player := Some p\<rparr>) (\<lambda>out s'. lift (k out (this s' p)) s')"

text \<open>
  The message of the \<^verbatim>\<open>TypeError\<close> that calling a method on the variable \<^verbatim>\<open>player\<close>
  raises while it is still \<^verbatim>\<open>null\<close> (the text is the engine's).
\<close>

definition null_player :: "string \<Rightarrow> string" where
  "null_player method_name =
     ''Cannot read properties of null (reading '' @ [CHR 0x27] @ method_name @ [CHR 0x27] @ '')''"

definition on_player :: "string \<Rightarrow> (player \<Rightarrow> (player, 'a result) task) \<Rightarrow> app \<Rightarrow> (app, 'a result) task" where
  "on_player method_name method s =
     (case player s of
        None \<Rightarrow> throw (null_player method_name) s
      | Some p \<Rightarrow> lift (method p) s)"

subsection \<open>Scanning and playing\<close>

text \<open>
  \<^verbatim>\<open>startScanning\<close> creates the scanner with \<^verbatim>\<open>handleScan\<close> as its \<^verbatim>\<open>onScan\<close> callback and a
  cooldown of 3000 ms, and waits for it to start. The scanner itself is outside the
  sources: its start is a call whose outcome comes from the outside.
\<close>

definition startScanning :: "app \<Rightarrow> (app, unit) task" where
  "startScanning s0 =
     (case selectedDevice s0 of
        None \<Rightarrow> Done () (showToast ''Please select a device first'' ''warning'' 3000 s0)
      | Some d \<Rightarrow>
          (let s1 = showScreen ''player-screen'' s0;
               s2 = setDeviceName (dev_name d) s1;
               s3 = s2\<lparr>scanner := Some \<lparr>cooldownMs = 3000\<rparr>\<rparr>
           in Scanner ScannerStart s3 (\<lambda>out s4. case out of
                Fulfilled _ \<Rightarrow> Done () (showToast ''Scanner ready!'' ''success'' 2000 s4)
              | Rejected msg \<Rightarrow>
                  Done () (showToast (''Failed to start camera: '' @ msg) ''error'' 3000 s4))))"

definition handleScan :: "string \<Rightarrow> app \<Rightarrow> (app, unit) task" where
  "handleScan spotifyUri s0 =
     (let s1 = s0\<lparr>isYearRevealed := False\<rparr>;
          s2 = updateNowPlaying None False s1;
          s3 = showToast ''Loading track...'' ''info'' 1500 s2
      in bind (on_player ''play'' (play spotifyUri None) s3) (\<lambda>r s4. case r of
           Inr t \<Rightarrow>
             (let s5 = updateNowPlaying (Some t) False s4;
                  s6 = updatePlayButton True s5;
                  s7 = updateRevealButton True False s6
              in Done () (showToast ''Now playing!'' ''success'' 2000 s7))
         | Inl err \<Rightarrow>
             (let s5 = showToast (message err) ''error'' 3000 s4
              in if includes_str (message err) ''device'' \<or> includes_str (message err) ''No active''
                 then
                   (let s6 = showToast ''Device unavailable - tap to refresh'' ''warning'' 5000 s5
                    in bind (on_player ''getDevices'' getDevices s6) (\<lambda>r' s7. case r' of
                         Inr devices \<Rightarrow>
                           (if find (\<lambda>d. Some (dev_id d) = map_option dev_id (selectedDevice s7)) devices = None
                            then Done () (showToast ''Device went offline. Open Spotify and try again.''
                                            ''error'' 5000 s7)
                            else Done () s7)
                       | Inl e \<Rightarrow> Done () s7))
                 else Done () s5)))"

definition togglePlayback_app :: "app \<Rightarrow> (app, unit) task" where
  "togglePlayback_app s0 =
     (if player s0 = None then Done () s0
      else bind (on_player ''togglePlayback'' togglePlayback s0) (\<lambda>r s1. case r of
             Inr playing \<Rightarrow> Done () (updatePlayButton playing s1)
           | Inl err \<Rightarrow> Done () (showToast (message err) ''error'' 3000 s1)))"

definition handleReveal :: "app \<Rightarrow> app" where
  "handleReveal s = updateRevealButton True True (revealSongInfo (s\<lparr>isYearRevealed := True\<rparr>))"

subsection \<open>Choosing a device\<close>

text \<open>
  The part of \<^verbatim>\<open>selectDevice\<close> after the device list is known. When the variable
  \<^verbatim>\<open>player\<close> is still \<^verbatim>\<open>null\<close> the call of \<^verbatim>\<open>setDevice\<close> throws and the rest is skipped.
\<close>

definition mark_selected :: "string \<Rightarrow> devices_view \<Rightarrow> devices_view" where
  "mark_selected deviceId v =
     (case v of
        DeviceItems items \<Rightarrow> DeviceItems (map (\<lambda>(d, _). (d, dev_id d = deviceId)) items)
      | _ \<Rightarrow> v)"

text \<open>
  A write to the device list or the start button by a function that looked them up when
  \<open>deviceElements\<close> was \<open>g\<close>. It shows on the page only while those elements are still
  the page's; after a replacement it lands on detached elements.
\<close>

definition on_elements :: "nat \<Rightarrow> (app \<Rightarrow> app) \<Rightarrow> app \<Rightarrow> app" where
  "on_elements g write s = (if deviceElements s = g then write s else s)"

text \<open>
  \<open>g\<close> is the start button that \<^verbatim>\<open>selectDevice\<close> looked up on entry; the device items are
  queried when they are marked, on the page as it is then.
\<close>

definition select_from :: "nat \<Rightarrow> string \<Rightarrow> device list \<Rightarrow> app \<Rightarrow> app" where
  "select_from g deviceId devices s =
     (case find (\<lambda>d. dev_id d = deviceId) devices of
        None \<Rightarrow> s
      | Some d \<Rightarrow>
          (let s1 = s\<lparr>selectedDevice := Some d\<rparr>
           in case player s1 of
                None \<Rightarrow> s1
              | Some p \<Rightarrow>
                  (let s2 = s1\<lparr>player := Some (setDevice deviceId p)\<rparr>;
                       s3 = saveDevice d s2;
                       s4 = s3\<lparr>devicesList := mark_selected deviceId (devicesList s3)\<rparr>;
                       s5 = on_elements g (\<lambda>s. s\<lparr>startBtnDisabled := False\<rparr>) s4
                   in showToast (''Selected: '' @ dev_name d) ''info'' 2000 s5)))"

text \<open>
  \<^verbatim>\<open>selectDevice\<close> has no \<^verbatim>\<open>try\<close>: when fetching the devices fails, the call ends there.
\<close>

definition selectDevice :: "string \<Rightarrow> device list option \<Rightarrow> app \<Rightarrow> (app, unit) task" where
  "selectDevice deviceId devices s =
     (let g = deviceElements s
      in case devices of
           Some ds \<Rightarrow> Done () (select_from g deviceId ds s)
         | None \<Rightarrow>
             bind (on_player ''getDevices'' getDevices s) (\<lambda>r s'. case r of
                 Inl err \<Rightarrow> Done () s'
               | Inr ds \<Rightarrow> Done () (select_from g deviceId ds s')))"

text \<open>
  \<^verbatim>\<open>refreshDevices\<close> looks the device list and the start button up on entry and writes
  to them after the devices have arrived; the call of \<^verbatim>\<open>selectDevice\<close> for the active
  device looks the start button up anew.
\<close>

definition refreshDevices :: "app \<Rightarrow> (app, unit) task" where
  "refreshDevices s0 =
     (let g = deviceElements s0
      in if player s0 = None then Done () s0
         else
           (let s1 = s0\<lparr>devicesList := LoadingDevices\<rparr>
            in bind (on_player ''getDevices'' getDevices s1) (\<lambda>r s2. case r of
                 Inr devices \<Rightarrow>
                   (if length devices = 0 then
                      Done () (on_elements g
                        (\<lambda>s. s\<lparr>devicesList := NoDevicesFound, startBtnDisabled := True\<rparr>) s2)
                    else
                      (let s3 = on_elements g (\<lambda>s. s\<lparr>devicesList := DeviceItems
                             (map (\<lambda>d. (d, Some (dev_id d) = map_option dev_id (selectedDevice s2)))
                                devices)\<rparr>) s2
                       in if selectedDevice s3 = None then
                            (case find is_active devices of
                               Some activeDevice \<Rightarrow>
                                 Done () (select_from (deviceElements s3) (dev_id activeDevice) devices s3)
                             | None \<Rightarrow> Done () s3)
                          else Done () (on_elements g (\<lambda>s. s\<lparr>startBtnDisabled := False\<rparr>) s3)))
               | Inl err \<Rightarrow>
                   Done () (on_elements g
                     (\<lambda>s. s\<lparr>devicesList := LoadFailed (message err), startBtnDisabled := True\<rparr>) s2))))"

text \<open>
  \<^verbatim>\<open>setupDeviceHandlers\<close> replaces the refresh button, the start button and the device list
  by clones, which carry the state of the originals, and binds the handlers to the
  clones.
\<close>

definition setupDeviceHandlers :: "app \<Rightarrow> app" where
  "setupDeviceHandlers s = s\<lparr>deviceElements := Suc (deviceElements s)\<rparr>"

definition showDeviceSelection :: "app \<Rightarrow> (app, unit) task" where
  "showDeviceSelection s = refreshDevices (setupDeviceHandlers (showScreen ''setup-screen'' s))"

text \<open>
  The click handler of the change-device button. A scanner that fails to stop rejects
  the handler, which ends there.
\<close>

definition changeDevice :: "app \<Rightarrow> (app, unit) task" where
  "changeDevice s0 =
     (case scanner s0 of
        Some _ \<Rightarrow>
          Scanner ScannerStop s0 (\<lambda>out s1. case out of
              Rejected msg \<Rightarrow> Done () s1
            | Fulfilled _ \<Rightarrow> showDeviceSelection (clearSavedDevice s1))
      | None \<Rightarrow> showDeviceSelection (clearSavedDevice s0))"

subsection \<open>Start-up\<close>

definition initialize_failed :: "error \<Rightarrow> app \<Rightarrow> app" where
  "initialize_failed err s =
     (if includes_str (message err) ''expired'' \<or> includes_str (message err) ''401'' then
        (let s1 = clearToken s;
             s2 = clearSavedDevice s1;
             s3 = showToast ''Session expired. Please log in again.'' ''warning'' 3000 s2
         in showScreen ''login-screen'' s3)
      else showToast (message err) ''error'' 3000 s)"

definition show_welcome :: "string option \<Rightarrow> app \<Rightarrow> (app, unit) task" where
  "show_welcome display_name s =
     showDeviceSelection (showToast (''Welcome, '' @ template display_name @ ''!'') ''success'' 3000 s)"

definition initializePlayer :: "string \<Rightarrow> app \<Rightarrow> (app, unit) task" where
  "initializePlayer tok s0 =
     (let s1 = s0\<lparr>player := Some (SpotifyPlayer tok)\<rparr>
      in bind (on_player ''getUserProfile'' getUserProfile s1) (\<lambda>r s2. case r of
           Inl err \<Rightarrow> Done () (initialize_failed err s2)
         | Inr display_name \<Rightarrow>
             (case getSavedDevice s2 of
                None \<Rightarrow> show_welcome display_name s2
              | Some savedDevice \<Rightarrow>
                  bind (on_player ''getDevices'' getDevices s2) (\<lambda>r' s3. case r' of
                      Inl err \<Rightarrow> Done () (initialize_failed err s3)
                    | Inr devices \<Rightarrow>
                        (case find (\<lambda>d. dev_id d = saved_id savedDevice) devices of
                           Some deviceStillAvailable \<Rightarrow>
                             (let s4 = s3\<lparr>selectedDevice := Some deviceStillAvailable\<rparr>;
                                  s5 = s4\<lparr>player := map_option (setDevice (saved_id savedDevice)) (player s4)\<rparr>;
                                  s6 = showToast (''Resuming on '' @ saved_name savedDevice) ''success'' 2000 s5
                              in startScanning s6)
                         | None \<Rightarrow>
                             (let s4 = clearSavedDevice s3;
                                  s5 = showToast ''Previous device unavailable. Please select a new one.''
                                         ''warning'' 3000 s4
                              in show_welcome display_name s5))))))"

section \<open>Running tasks\<close>

text \<open>
  The outside world answers one call at a time. \<open>run\<close> plays a task against a script of
  answers with nothing else happening in between; it gives the calls that were issued,
  in order, and the result and final state when the script carried the task to its end.
\<close>

datatype call = FetchCall request | ScannerCall scanner_call

datatype reply = FetchReply "response settled" | ScannerReply "unit settled"

fun run :: "('s, 'a) task \<Rightarrow> reply list \<Rightarrow> call list \<times> ('a \<times> 's) option" where
  "run (Done a s) rs = ([], Some (a, s))"
| "run (Fetch req s k) (FetchReply out # rs) =
     (case run (k out s) rs of (cs, res) \<Rightarrow> (FetchCall req # cs, res))"
| "run (Fetch req s k) rs = ([FetchCall req], None)"
| "run (Scanner c s k) (ScannerReply out # rs) =
     (case run (k out s) rs of (cs, res) \<Rightarrow> (ScannerCall c # cs, res))"
| "run (Scanner c s k) rs = ([ScannerCall c], None)"

text \<open>The state a task has left behind: at its end, or where it is suspended.\<close>

primrec state_of :: "('s, 'a) task \<Rightarrow> 's" where
  "state_of (Done a s) = s"
| "state_of (Fetch req s k) = s"
| "state_of (Scanner c s k) = s"

text \<open>The call a suspended task is waiting for.\<close>

primrec waiting_for :: "('s, 'a) task \<Rightarrow> call option" where
  "waiting_for (Done a s) = None"
| "waiting_for (Fetch req s k) = Some (FetchCall req)"
| "waiting_for (Scanner c s k) = Some (ScannerCall c)"

text \<open>
  Resuming a suspended task with an answer, in the state \<open>s'\<close> that the application is
  in by then. An answer of the wrong kind, or a task that is not suspended, gives
  \<open>None\<close>.
\<close>

fun resume_with :: "reply \<Rightarrow> 's \<Rightarrow> ('s, 'a) task \<Rightarrow> ('s, 'a) task option" where
  "resume_with (FetchReply out) s' (Fetch req s k) = Some (k out s')"
| "resume_with (ScannerReply out) s' (Scanner c s k) = Some (k out s')"
| "resume_with r s' t = None"

section \<open>The running application\<close>

text \<open>
  JavaScript runs one handler at a time, each until it ends or suspends. The running
  application is its state together with the handlers that are suspended on a call. An
  event starts its handler in the current state; \<open>Settle i r\<close> is the outside world
  answering the call of the \<open>i\<close>-th suspended handler, which then runs on from the
  current state.
\<close>

record system =
  app_state :: app
  pending :: "(app, unit) task list"

definition start :: "(app, unit) task \<Rightarrow> system \<Rightarrow> system" where
  "start t c =
     (case t of
        Done _ s \<Rightarrow> c\<lparr>app_state := s\<rparr>
      | _ \<Rightarrow> c\<lparr>app_state := state_of t, pending := pending c @ [t]\<rparr>)"

datatype event =
    Scan string
  | RevealClick
  | PauseClick
  | StartClick
  | RefreshClick
  | DeviceClick string
  | ChangeDeviceClick
  | Settle nat reply

fun step :: "event \<Rightarrow> system \<Rightarrow> system" where
  "step (Scan spotifyUri) c = start (handleScan spotifyUri (app_state c)) c"
| "step RevealClick c = c\<lparr>app_state := handleReveal (app_state c)\<rparr>"
| "step PauseClick c = start (togglePlayback_app (app_state c)) c"
| "step StartClick c = start (startScanning (app_state c)) c"
| "step RefreshClick c = start (refreshDevices (app_state c)) c"
| "step (DeviceClick deviceId) c = start (selectDevice deviceId None (app_state c)) c"
| "step ChangeDeviceClick c = start (changeDevice (app_state c)) c"
| "step (Settle i r) c =
     (if i < length (pending c) then
        (case resume_with r (app_state c) (pending c ! i) of
           None \<Rightarrow> c
         | Some t \<Rightarrow> start t (c\<lparr>pending := take i (pending c) @ drop (Suc i) (pending c)\<rparr>))
      else c)"

definition steps :: "event list \<Rightarrow> system \<Rightarrow> system" where
  "steps es c = foldl (\<lambda>c' e. step e c') c es"

text \<open>Start-up with a token: \<^verbatim>\<open>initializePlayer\<close> is the first handler to run.\<close>

definition boot :: "string \<Rightarrow> app \<Rightarrow> system" where
  "boot tok s0 = start (initializePlayer tok s0) \<lparr>app_state = s0, pending = []\<rparr>"

text \<open>The play requests in flight: the suspended handlers whose call carries a track URI.\<close>

definition is_play_request :: "call \<Rightarrow> bool" where
  "is_play_request c =
     (case c of
        FetchCall req \<Rightarrow> (case body req of PlayBody _ \<Rightarrow> True | _ \<Rightarrow> False)
      | ScannerCall _ \<Rightarrow> False)"

definition in_flight_plays :: "system \<Rightarrow> (app, unit) task list" where
  "in_flight_plays c =
     filter (\<lambda>t. case waiting_for t of None \<Rightarrow> False | Some call \<Rightarrow> is_play_request call) (pending c)"

subsection \<open>The application at page load\<close>

text \<open>
  At page load the variables are as the module initialises them. The stored token and
  the storage slot are whatever an earlier visit left.

  Modelled from the spec: the page \<^verbatim>\<open>index.html\<close> is not among the sources. Of its parts
  only the start button matters at the start: the spec has the start action enabled only
  once a device is selected, so the button starts disabled. The other parts of the page
  may start in any way.
\<close>

definition initial :: "app \<Rightarrow> bool" where
  "initial s =
     (player s = None \<and> scanner s = None \<and> selectedDevice s = None \<and> \<not> isYearRevealed s \<and>
      startBtnDisabled s)"

text \<open>One such state, for the examples: an untouched page with nothing shown.\<close>

definition fresh_app :: "string option \<Rightarrow> storage_entry option \<Rightarrow> app" where
  "fresh_app tok saved =
     \<lparr>player = None, scanner = None, selectedDevice = None, isYearRevealed = False,
      storedToken = tok, localStorage_device = saved,
      screen = ''login-screen'', toasts = [],
      placeholderHidden = False, contentHidden = True, contentRevealed = False,
      albumArtSrc = [], trackNameText = [], artistNameText = [], trackYearText = [],
      pauseIconHidden = False, playIconHidden = True, pauseBtnDisabled = True,
      revealBtnHidden = True, startBtnDisabled = True,
      deviceNameText = ''---'', devicesList = LoadingDevices, deviceElements = 0\<rparr>"

section \<open>Properties of tasks\<close>

text \<open>
  \<open>upholds C R t\<close>: every call that \<open>t\<close> waits for, now or later, satisfies \<open>C\<close>; and
  whenever \<open>t\<close> is resumed in a state \<open>s'\<close>, the state it leaves next is related to
  \<open>s'\<close> by \<open>R\<close>, whatever the answer was.
\<close>

primrec upholds :: "(call \<Rightarrow> bool) \<Rightarrow> ('s \<Rightarrow> 's \<Rightarrow> bool) \<Rightarrow> ('s, 'a) task \<Rightarrow> bool" where
  "upholds C R (Done a s) = True"
| "upholds C R (Fetch req s k) =
     (C (FetchCall req) \<and> (\<forall>out s'. R s' (state_of (k out s')) \<and> upholds C R (k out s')))"
| "upholds C R (Scanner c s k) =
     (C (ScannerCall c) \<and> (\<forall>out s'. R s' (state_of (k out s')) \<and> upholds C R (k out s')))"

text \<open>
  \<open>ends_with Q t\<close>: however the outside world answers, a run of \<open>t\<close> with nothing else
  happening in between can only end in a result and a state that satisfy \<open>Q\<close>.
\<close>

primrec ends_with :: "('a \<Rightarrow> 's \<Rightarrow> bool) \<Rightarrow> ('s, 'a) task \<Rightarrow> bool" where
  "ends_with Q (Done a s) = Q a s"
| "ends_with Q (Fetch req s k) = (\<forall>out. ends_with Q (k out s))"
| "ends_with Q (Scanner c s k) = (\<forall>out. ends_with Q (k out s))"

text \<open>A transfer request: the call that \<^verbatim>\<open>transferPlayback\<close> issues.\<close>

definition is_transfer_request :: "call \<Rightarrow> bool" where
  "is_transfer_request c =
     (case c of
        FetchCall req \<Rightarrow> (case body req of TransferBody _ _ \<Rightarrow> True | _ \<Rightarrow> False)
      | ScannerCall _ \<Rightarrow> False)"

text \<open>The systems that start-up and any sequence of events can produce.\<close>

inductive reachable :: "system \<Rightarrow> bool" where
  booted: "initial s0 \<Longrightarrow> reachable (boot tok s0)"
| stepped: "reachable c \<Longrightarrow> reachable (step e c)"

text \<open>
  Two properties of the application's state that every handler is checked against: the
  start button is enabled only with a device selected; and between a scan and a reveal
  nothing touches \<^verbatim>\<open>isYearRevealed\<close>.
\<close>

definition start_guard :: "app \<Rightarrow> bool" where
  "start_guard s = (startBtnDisabled s \<or> selectedDevice s \<noteq> None)"

definition handler_step :: "app \<Rightarrow> app \<Rightarrow> bool" where
  "handler_step s s' =
     (isYearRevealed s' = isYearRevealed s \<and> (start_guard s \<longrightarrow> start_guard s'))"

definition no_transfer :: "call \<Rightarrow> bool" where
  "no_transfer c = (\<not> is_transfer_request c)"

definition well_behaved :: "system \<Rightarrow> bool" where
  "well_behaved c =
     (start_guard (app_state c) \<and> (\<forall>t \<in> set (pending c). upholds no_transfer handler_step t))"

text \<open>A handler started in the state \<open>s\<close> that keeps both and never asks for a transfer.\<close>

definition behaves :: "app \<Rightarrow> (app, 'a) task \<Rightarrow> bool" where
  "behaves s t = (upholds no_transfer handler_step t \<and> handler_step s (state_of t))"

section \<open>The spec's clamp\<close>


section \<open>A sample session\<close>

text \<open>
  Concrete data for the examples: one device, two tracks, and a session that starts with
  a saved device, finds it in the device list and goes straight to scanning.
\<close>

definition sample_device :: device where
  "sample_device = \<lparr>dev_id = ''dev1'', dev_name = ''Kitchen'', dev_type = ''Speaker'', is_active = True\<rparr>"

definition sample_track :: "string \<Rightarrow> string \<Rightarrow> track_json" where
  "sample_track ident title =
     \<lparr>json_id = ident, json_uri = ''spotify:track:'' @ ident, json_name = title,
      json_artists = [''Queen''], json_album_name = ''Album'',
      json_images = [Some ''large.jpg'', Some ''medium.jpg'', Some ''small.jpg''],
      json_release_date = Some ''1975-03-01'', json_duration_ms = 354000,
      json_preview_url = None\<rparr>"

definition no_content :: reply where
  "no_content = FetchReply (Fulfilled (204, Unparsable ''Unexpected end of JSON input''))"

definition http_error :: "nat \<Rightarrow> reply" where
  "http_error st = FetchReply (Fulfilled (st, Unparsable ''Unexpected end of JSON input''))"

definition sample_player :: player where
  "sample_player =
     \<lparr>token = ''tok'', selectedDeviceId = Some ''dev1'', currentTrack = None, isPlaying = False\<rparr>"

definition resumed_session :: system where
  "resumed_session =
     steps [Settle 0 (FetchReply (Fulfilled (200, ProfileJson ''Ann''))),
            Settle 0 (FetchReply (Fulfilled (200, DevicesJson (Some [sample_device])))),
            Settle 0 (ScannerReply (Fulfilled ()))]
       (boot ''tok'' (fresh_app (Some ''tok'')
          (Some (SavedJson \<lparr>saved_id = ''dev1'', saved_name = ''Kitchen'', saved_type = ''Speaker''\<rparr>))))"

definition setup_session :: system where
  "setup_session =
     steps [Settle 0 (FetchReply (Fulfilled (200, ProfileJson ''Ann''))),
            Settle 0 (FetchReply (Fulfilled (200, DevicesJson (Some [sample_device]))))]
       (boot ''tok'' (fresh_app (Some ''tok'') None))"

definition played_once :: system where
  "played_once =
     steps [Scan ''spotify:track:abc'',
            Settle 0 no_content,
            Settle 0 (FetchReply (Fulfilled (200, TrackJson (sample_track ''abc'' ''First''))))]
       resumed_session"

text \<open>The states that the sample session passes through, written out.\<close>

definition resumed_app :: app where
  "resumed_app =
     (fresh_app (Some ''tok'')
        (Some (SavedJson \<lparr>saved_id = ''dev1'', saved_name = ''Kitchen'', saved_type = ''Speaker''\<rparr>)))
     \<lparr>player := Some sample_player,
      scanner := Some \<lparr>cooldownMs = 3000\<rparr>,
      selectedDevice := Some sample_device,
      screen := ''player-screen'',
      toasts :=
        [\<lparr>toast_message = ''Resuming on Kitchen'', toast_type = ''success'', toast_duration = 2000\<rparr>,
         \<lparr>toast_message = ''Scanner ready!'', toast_type = ''success'', toast_duration = 2000\<rparr>],
      deviceNameText := ''Kitchen''\<rparr>"

definition first_track :: track where
  "first_track = track_of_json (sample_track ''abc'' ''First'')"

definition played_app :: app where
  "played_app =
     resumed_app
     \<lparr>player := Some (sample_player\<lparr>currentTrack := Some first_track, isPlaying := True\<rparr>),
      toasts := toasts resumed_app @
        [\<lparr>toast_message = ''Loading track...'', toast_type = ''info'', toast_duration = 1500\<rparr>,
         \<lparr>toast_message = ''Now playing!'', toast_type = ''success'', toast_duration = 2000\<rparr>],
      placeholderHidden := True, contentHidden := False, contentRevealed := False,
      albumArtSrc := ''large.jpg'', trackNameText := ''First'', artistNameText := ''Queen'',
      trackYearText := ''1975'',
      pauseIconHidden := False, playIconHidden := True, pauseBtnDisabled := False,
      revealBtnHidden := False\<rparr>"

definition setup_app :: app where
  "setup_app =
     (fresh_app (Some ''tok'')
        (Some (SavedJson \<lparr>saved_id = ''dev1'', saved_name = ''Kitchen'', saved_type = ''Speaker''\<rparr>)))
     \<lparr>player := Some sample_player,
      selectedDevice := Some sample_device,
      screen := ''setup-screen'',
      toasts :=
        [\<lparr>toast_message = ''Welcome, Ann!'', toast_type = ''success'', toast_duration = 3000\<rparr>,
         \<lparr>toast_message = ''Selected: Kitchen'', toast_type = ''info'', toast_duration = 2000\<rparr>],
      startBtnDisabled := False,
      devicesList := DeviceItems [(sample_device, True)],
      deviceElements := 1\<rparr>"

text \<open>The first track is paused, and a second card is scanned; the play command succeeds.\<close>

definition second_play_accepted :: system where
  "second_play_accepted =
     steps [PauseClick, Settle 0 no_content, Scan ''spotify:track:xyz'', Settle 0 no_content]
       played_once"

text \<open>The answer is revealed, and a second card is scanned while no device is active.\<close>

definition second_play_refused :: system where
  "second_play_refused =
     steps [RevealClick, Scan ''spotify:track:xyz'', Settle 0 (http_error 404),
            Settle 0 (FetchReply (Fulfilled (200, DevicesJson (Some [sample_device]))))]
       played_once"

text \<open>\<^verbatim>\<open>transferPlayback\<close> called, awaited, and called again with the same arguments.\<close>

definition transferPlayback_twice :: "string \<Rightarrow> bool \<Rightarrow> player \<Rightarrow> (player, unit result) task" where
  "transferPlayback_twice deviceId play_flag p =
     await (transferPlayback deviceId play_flag p) (\<lambda>_ p'. transferPlayback deviceId play_flag p')"

section \<open>Facts shared by the proofs\<close>

lemmas task_defs = await_def throw_def return_def apiRequest_def startsWith_def API_BASE_def
  status_def ok_def

lemmas ui_defs = showToast_def showScreen_def updateNowPlaying_def updatePlayButton_def
  updateRevealButton_def setDeviceName_def revealSongInfo_def

lemmas parse_defs = extractYear_def truthy_def template_def parseInt10_def Let_def

lemma is_digit_not_space_or_sign:
  "is_digit c \<Longrightarrow> \<not> StrWhiteSpaceChar c \<and> c \<noteq> CHR ''+'' \<and> c \<noteq> CHR ''-''"
  by (auto simp: is_digit_def StrWhiteSpaceChar_def)

lemma extractYear_four_digits:
  assumes "is_digit a" "is_digit b" "is_digit c" "is_digit d"
  shows "extractYear (Some (a # b # c # d # rest)) =
     Some (int (1000 * digit_value a + 100 * digit_value b + 10 * digit_value c + digit_value d))"
  using assms is_digit_not_space_or_sign [of a]
  by (simp add: parse_defs)

lemma extractYear_unparsable:
  assumes "\<not> is_digit a" "\<not> StrWhiteSpaceChar a" "a \<noteq> CHR ''+''" "a \<noteq> CHR ''-''"
  shows "extractYear (Some (a # rest)) = None"
  using assms by (simp add: parse_defs)

lemma transferPlayback_request:
  "waiting_for (transferPlayback d fl p) =
     Some (FetchCall \<lparr>url = ''https://api.spotify.com/v1/me/player'', http_method = PUT,
       authorization = ''Bearer '' @ token p, body = TransferBody d fl\<rparr>)"
  by (simp add: transferPlayback_def task_defs)

lemma transferPlayback_state: "state_of (transferPlayback d fl p) = p"
  by (simp add: transferPlayback_def task_defs)

lemma transferPlayback_resume:
  "resume_with (FetchReply out) p' (transferPlayback d fl p) =
     Some (case out of
        Rejected msg \<Rightarrow> Done (Inl (Error msg)) p'
      | Fulfilled r \<Rightarrow>
          if fst r = 401 then Done (Inl (Error ''Token expired. Please log in again.'')) p'
          else if fst r = 403 then Done (Inl (Error ''Premium required for playback control.'')) p'
          else if fst r = 404 then
            Done (Inl (Error ''No active device found. Open Spotify on a device first.'')) p'
          else if 200 \<le> fst r \<and> fst r \<le> 299 then Done (Inr ()) (p'\<lparr>selectedDeviceId := Some d\<rparr>)
          else Done (Inl (Error ''Failed to transfer playback'')) p')"
  by (auto simp add: transferPlayback_def task_defs split: settled.splits)

lemma transferPlayback_run:
  "run (transferPlayback d fl p) (FetchReply out # rs) =
     ([FetchCall \<lparr>url = ''https://api.spotify.com/v1/me/player'', http_method = PUT,
         authorization = ''Bearer '' @ token p, body = TransferBody d fl\<rparr>],
      Some (case out of
        Rejected msg \<Rightarrow> (Inl (Error msg), p)
      | Fulfilled r \<Rightarrow>
          if fst r = 401 then (Inl (Error ''Token expired. Please log in again.''), p)
          else if fst r = 403 then (Inl (Error ''Premium required for playback control.''), p)
          else if fst r = 404 then
            (Inl (Error ''No active device found. Open Spotify on a device first.''), p)
          else if 200 \<le> fst r \<and> fst r \<le> 299 then (Inr (), p\<lparr>selectedDeviceId := Some d\<rparr>)
          else (Inl (Error ''Failed to transfer playback''), p)))"
  by (auto simp add: transferPlayback_def task_defs split: settled.splits)

section \<open>Handlers keep the state in order\<close>

lemma state_of_bind:
  assumes "\<And>a b c. R a b \<Longrightarrow> R b c \<Longrightarrow> R a c"
    and "\<And>a s. R s (state_of (g a s))"
    and "R x (state_of t)"
  shows "R x (state_of (bind t g))"
  using assms by (cases t) auto

lemma upholds_bind:
  assumes trans: "\<And>a b c. R a b \<Longrightarrow> R b c \<Longrightarrow> R a c"
    and g: "\<And>a s. upholds C R (g a s) \<and> R s (state_of (g a s))"
  shows "upholds C R t \<Longrightarrow> upholds C R (bind t g)"
proof (induction t)
  case (Done a s)
  then show ?case by (simp add: g)
next
  case (Fetch req s k)
  then show ?case
    by (auto intro!: state_of_bind [where R = R] simp: g intro: trans)
next
  case (Scanner c s k)
  then show ?case
    by (auto intro!: state_of_bind [where R = R] simp: g intro: trans)
qed

lemma upholds_lift:
  assumes R: "\<And>s p. R s (s\<lparr>player := p\<rparr>)"
  shows "upholds C (\<lambda>_ _. True) t \<Longrightarrow> upholds C R (lift t s) \<and> R s (state_of (lift t s))"
proof (induction t arbitrary: s)
  case (Done a p)
  then show ?case by (simp add: R)
next
  case (Fetch req p k)
  have "\<And>out q. upholds C (\<lambda>_ _. True) (k out q)"
    using Fetch.prems by simp
  then have "\<And>out q s. upholds C R (lift (k out q) s) \<and> R s (state_of (lift (k out q) s))"
    using Fetch.IH [OF rangeI rangeI] by blast
  with Fetch.prems show ?case by (simp add: R)
next
  case (Scanner c p k)
  have "\<And>out q. upholds C (\<lambda>_ _. True) (k out q)"
    using Scanner.prems by simp
  then have "\<And>out q s. upholds C R (lift (k out q) s) \<and> R s (state_of (lift (k out q) s))"
    using Scanner.IH [OF rangeI rangeI] by blast
  with Scanner.prems show ?case by (simp add: R)
qed

lemma player_calls:
  "upholds no_transfer (\<lambda>_ _. True) (play uri dev p)"
  "upholds no_transfer (\<lambda>_ _. True) (getDevices p)"
  "upholds no_transfer (\<lambda>_ _. True) (togglePlayback p)"
  "upholds no_transfer (\<lambda>_ _. True) (getUserProfile p)"
  by (auto simp add: play_def getDevices_def togglePlayback_def getUserProfile_def getTrackInfo_def
      pause_def resume_def task_defs no_transfer_def is_transfer_request_def Let_def
      split: settled.splits payload.splits option.splits)


lemmas store_defs = saveDevice_def clearSavedDevice_def clearToken_def

lemma handler_step_refl: "handler_step s s"
  by (simp add: handler_step_def)

lemma handler_step_trans: "handler_step a b \<Longrightarrow> handler_step b c \<Longrightarrow> handler_step a c"
  by (simp add: handler_step_def)

lemma handler_step_player: "handler_step s (s\<lparr>player := p\<rparr>)"
  by (simp add: handler_step_def start_guard_def)

lemma behaves_Done: "handler_step s s' \<Longrightarrow> behaves s (Done a s')"
  by (simp add: behaves_def)

lemma behaves_bind:
  assumes "behaves s t" and "\<And>a s'. behaves s' (g a s')"
  shows "behaves s (bind t g)"
  unfolding behaves_def
proof
  show "upholds no_transfer handler_step (bind t g)"
    using assms by (intro upholds_bind [where R = handler_step]) (auto simp: behaves_def intro: handler_step_trans)
  show "handler_step s (state_of (bind t g))"
    using assms by (intro state_of_bind [where R = handler_step]) (auto simp: behaves_def intro: handler_step_trans)
qed

lemma behaves_on_player:
  assumes "\<And>p. upholds no_transfer (\<lambda>_ _. True) (m p)" and "handler_step s s1"
  shows "behaves s (on_player n m s1)"
proof -
  have "behaves s1 (on_player n m s1)"
    using assms(1) upholds_lift [where R = handler_step and C = no_transfer, OF handler_step_player]
    by (auto simp: behaves_def on_player_def throw_def handler_step_refl split: option.splits)
  with assms(2) show ?thesis
    by (auto simp: behaves_def intro: handler_step_trans)
qed

lemma behaves_from: "handler_step s s' \<Longrightarrow> behaves s' t \<Longrightarrow> behaves s t"
  by (auto simp: behaves_def intro: handler_step_trans)

lemma select_from_revealed: "isYearRevealed (select_from g d ds s) = isYearRevealed s"
  by (auto simp: select_from_def on_elements_def ui_defs store_defs Let_def split: option.splits)

lemma select_from_guard: "start_guard s \<Longrightarrow> start_guard (select_from g d ds s)"
  by (auto simp: select_from_def on_elements_def start_guard_def ui_defs store_defs Let_def
      split: option.splits)

lemmas step_defs = handler_step_def start_guard_def ui_defs store_defs

lemma behaves_togglePlayback_app: "behaves s (togglePlayback_app s)"
  unfolding togglePlayback_app_def
  by (auto intro!: behaves_bind behaves_on_player behaves_Done player_calls simp: step_defs split: sum.splits)

lemma behaves_selectDevice: "behaves s (selectDevice d ds s)"
  unfolding selectDevice_def Let_def
  by (auto intro!: behaves_bind behaves_on_player behaves_Done player_calls
      simp: handler_step_def select_from_revealed select_from_guard split: sum.splits option.splits)

lemma refresh_steps:
  "handler_step s (on_elements g (\<lambda>s. s\<lparr>devicesList := v, startBtnDisabled := True\<rparr>) s)"
  "handler_step s (on_elements g (\<lambda>s. s\<lparr>devicesList := v\<rparr>) s)"
  "selectedDevice s = Some d' \<Longrightarrow>
   handler_step s (on_elements g (\<lambda>s. s\<lparr>startBtnDisabled := False\<rparr>)
     (on_elements g (\<lambda>s. s\<lparr>devicesList := v\<rparr>) s))"
  "handler_step s (select_from g' d ds (on_elements g (\<lambda>s. s\<lparr>devicesList := v\<rparr>) s))"
  "handler_step s (s\<lparr>devicesList := v\<rparr>)"
  by (auto simp: handler_step_def select_from_revealed on_elements_def intro!: select_from_guard)
     (auto simp: start_guard_def)

lemma on_elements_selected [simp]:
  "selectedDevice (on_elements g (\<lambda>s. s\<lparr>devicesList := v\<rparr>) s) = selectedDevice s"
  by (simp add: on_elements_def)

lemma behaves_refreshDevices: "handler_step s s0 \<Longrightarrow> behaves s (refreshDevices s0)"
proof -
  have "behaves s0 (refreshDevices s0)"
    unfolding refreshDevices_def Let_def
    by (auto intro!: behaves_bind behaves_on_player behaves_Done player_calls refresh_steps handler_step_refl
        split: sum.splits option.splits)
  then show "handler_step s s0 \<Longrightarrow> behaves s (refreshDevices s0)"
    by (rule behaves_from [rotated])
qed

lemma behaves_showDeviceSelection: "handler_step s s0 \<Longrightarrow> behaves s (showDeviceSelection s0)"
  unfolding showDeviceSelection_def
  by (rule behaves_refreshDevices) (simp add: step_defs setupDeviceHandlers_def)

lemma behaves_changeDevice: "behaves s (changeDevice s)"
  unfolding changeDevice_def
  by (auto simp: behaves_def no_transfer_def is_transfer_request_def handler_step_refl
      intro!: behaves_showDeviceSelection [unfolded behaves_def, THEN conjunct1]
              behaves_showDeviceSelection [unfolded behaves_def, THEN conjunct2]
      split: option.splits settled.splits)
     (auto simp: step_defs)

lemma behaves_startScanning: "handler_step s s0 \<Longrightarrow> behaves s (startScanning s0)"
  unfolding startScanning_def Let_def
  by (auto simp: behaves_def no_transfer_def is_transfer_request_def step_defs
      split: option.splits settled.splits)

lemma handleScan_upholds:
  "upholds no_transfer handler_step (handleScan uri s) \<and>
   \<not> isYearRevealed (state_of (handleScan uri s)) \<and>
   (start_guard s \<longrightarrow> start_guard (state_of (handleScan uri s)))"
proof -
  let ?s3 = "showToast ''Loading track...'' ''info'' 1500
      (updateNowPlaying None False (s\<lparr>isYearRevealed := False\<rparr>))"
  have "behaves ?s3 (handleScan uri s)"
    unfolding handleScan_def Let_def
    by (auto intro!: behaves_bind behaves_on_player behaves_Done player_calls simp: step_defs split: sum.splits)
  then show ?thesis
    by (auto simp: behaves_def step_defs)
qed

lemma behaves_initializePlayer: "behaves s (initializePlayer tok s)"
  unfolding initializePlayer_def Let_def show_welcome_def
  by (auto intro!: behaves_bind behaves_on_player behaves_Done player_calls behaves_showDeviceSelection behaves_startScanning
      simp: step_defs initialize_failed_def Let_def split: sum.splits option.splits)

section \<open>Every reachable system is well behaved\<close>

lemma app_state_start: "app_state (start t c) = state_of t"
  by (cases t) (simp_all add: start_def)

lemma pending_start:
  "pending (start t c) = (case t of Done _ _ \<Rightarrow> pending c | _ \<Rightarrow> pending c @ [t])"
  by (cases t) (simp_all add: start_def)

lemma upholds_waiting: "upholds C R t \<Longrightarrow> waiting_for t = Some call \<Longrightarrow> C call"
  by (cases t) auto

lemma upholds_resume:
  "upholds C R t \<Longrightarrow> resume_with r s' t = Some t' \<Longrightarrow> upholds C R t' \<and> R s' (state_of t')"
  by (cases t; cases r) auto

lemma well_behaved_start:
  assumes "well_behaved c" and "upholds no_transfer handler_step t" and "start_guard (state_of t)"
  shows "well_behaved (start t c)"
  using assms by (cases t) (auto simp: well_behaved_def start_def)

lemma well_behaved_behaves:
  assumes "well_behaved c" and "behaves (app_state c) t"
  shows "well_behaved (start t c)"
  using assms
  by (intro well_behaved_start) (auto simp: behaves_def handler_step_def well_behaved_def)

lemma well_behaved_drop:
  "well_behaved c \<Longrightarrow> well_behaved (c\<lparr>pending := take i (pending c) @ drop (Suc i) (pending c)\<rparr>)"
  by (auto simp: well_behaved_def dest: in_set_takeD in_set_dropD)

lemma handleReveal_step:
  "start_guard s \<Longrightarrow> start_guard (handleReveal s)"
  by (simp add: handleReveal_def step_defs)

lemma well_behaved_step:
  assumes "well_behaved c"
  shows "well_behaved (step e c)"
proof (cases e)
  case (Scan uri)
  from assms handleScan_upholds [of uri "app_state c"]
  have "upholds no_transfer handler_step (handleScan uri (app_state c))"
    and "start_guard (state_of (handleScan uri (app_state c)))"
    by (simp_all add: well_behaved_def)
  with Scan assms show ?thesis
    by (simp add: well_behaved_start)
next
  case RevealClick
  with assms show ?thesis
    by (auto simp: well_behaved_def handleReveal_step)
next
  case PauseClick
  with assms show ?thesis
    by (auto intro!: well_behaved_behaves behaves_togglePlayback_app)
next
  case StartClick
  with assms show ?thesis
    by (auto intro!: well_behaved_behaves behaves_startScanning handler_step_refl)
next
  case RefreshClick
  with assms show ?thesis
    by (auto intro!: well_behaved_behaves behaves_refreshDevices handler_step_refl)
next
  case (DeviceClick d)
  with assms show ?thesis
    by (auto intro!: well_behaved_behaves behaves_selectDevice)
next
  case ChangeDeviceClick
  with assms show ?thesis
    by (auto intro!: well_behaved_behaves behaves_changeDevice)
next
  case (Settle i r)
  show ?thesis
  proof (cases "i < length (pending c)")
    case False
    with Settle assms show ?thesis by simp
  next
    case True
    show ?thesis
    proof (cases "resume_with r (app_state c) (pending c ! i)")
      case None
      with Settle True assms show ?thesis by simp
    next
      case (Some t')
      from assms True have "upholds no_transfer handler_step (pending c ! i)"
        by (simp add: well_behaved_def)
      from upholds_resume [OF this Some]
      have t': "upholds no_transfer handler_step t'" "handler_step (app_state c) (state_of t')"
        by simp_all
      with assms have "start_guard (state_of t')"
        by (simp add: well_behaved_def handler_step_def)
      with t' well_behaved_drop [OF assms, of i] Settle True Some show ?thesis
        by (auto intro!: well_behaved_start)
    qed
  qed
qed

lemma well_behaved_boot: "initial s0 \<Longrightarrow> well_behaved (boot tok s0)"
  unfolding boot_def
  by (rule well_behaved_behaves)
     (simp_all add: well_behaved_def start_guard_def initial_def behaves_initializePlayer)

lemma initial_fresh_app: "initial (fresh_app stored saved)"
  by (simp add: initial_def fresh_app_def)

lemma reachable_well_behaved: "reachable c \<Longrightarrow> well_behaved c"
  by (induction rule: reachable.induct) (simp_all add: well_behaved_boot well_behaved_step)

lemma reachable_steps: "reachable c \<Longrightarrow> reachable (steps es c)"
  unfolding steps_def
  by (induction es arbitrary: c) (simp_all add: reachable.stepped)

lemma reachable_resumed_session: "reachable resumed_session"
  unfolding resumed_session_def by (intro reachable_steps reachable.booted initial_fresh_app)

lemma reachable_setup_session: "reachable setup_session"
  unfolding setup_session_def by (intro reachable_steps reachable.booted initial_fresh_app)

lemma reachable_played_once: "reachable played_once"
  unfolding played_once_def by (intro reachable_steps reachable_resumed_session)

lemma revealed_after_step:
  assumes "well_behaved c"
  shows "isYearRevealed (app_state (step e c)) =
     (case e of Scan _ \<Rightarrow> False | RevealClick \<Rightarrow> True | _ \<Rightarrow> isYearRevealed (app_state c))"
proof (cases e)
  case (Scan uri)
  with handleScan_upholds [of uri "app_state c"] show ?thesis
    by (simp add: app_state_start)
next
  case RevealClick
  then show ?thesis by (simp add: handleReveal_def ui_defs)
next
  case PauseClick
  with behaves_togglePlayback_app [of "app_state c"] show ?thesis
    by (simp add: app_state_start behaves_def handler_step_def)
next
  case StartClick
  with behaves_startScanning [OF handler_step_refl, of "app_state c"] show ?thesis
    by (simp add: app_state_start behaves_def handler_step_def)
next
  case RefreshClick
  with behaves_refreshDevices [OF handler_step_refl, of "app_state c"] show ?thesis
    by (simp add: app_state_start behaves_def handler_step_def)
next
  case (DeviceClick d)
  with behaves_selectDevice [of "app_state c" d None] show ?thesis
    by (simp add: app_state_start behaves_def handler_step_def)
next
  case ChangeDeviceClick
  with behaves_changeDevice [of "app_state c"] show ?thesis
    by (simp add: app_state_start behaves_def handler_step_def)
next
  case (Settle i r)
  show ?thesis
  proof (cases "i < length (pending c)")
    case False
    with Settle show ?thesis by simp
  next
    case True
    show ?thesis
    proof (cases "resume_with r (app_state c) (pending c ! i)")
      case None
      with Settle True show ?thesis by simp
    next
      case (Some t')
      from assms True have "upholds no_transfer handler_step (pending c ! i)"
        by (simp add: well_behaved_def)
      from upholds_resume [OF this Some]
      have "handler_step (app_state c) (state_of t')"
        by simp
      with Settle True Some show ?thesis
        by (simp add: app_state_start handler_step_def)
    qed
  qed
qed

section \<open>What a run can end with\<close>

lemma ends_with_run:
  "ends_with Q t \<Longrightarrow> run t rs = (cs, Some (a, s')) \<Longrightarrow> Q a s'"
proof (induction t arbitrary: rs cs)
  case (Done b s)
  then show ?case by simp
next
  case (Fetch req s k)
  from Fetch.prems(2) obtain out rs' where rs: "rs = FetchReply out # rs'"
    by (cases rs; cases "hd rs") auto
  with Fetch.prems(2) obtain cs' where "run (k out s) rs' = (cs', Some (a, s'))"
    by (auto split: prod.splits)
  moreover from Fetch.prems(1) have "ends_with Q (k out s)"
    by simp
  ultimately show ?case
    using Fetch.IH [OF rangeI rangeI] by blast
next
  case (Scanner c s k)
  from Scanner.prems(2) obtain out rs' where rs: "rs = ScannerReply out # rs'"
    by (cases rs; cases "hd rs") auto
  with Scanner.prems(2) obtain cs' where "run (k out s) rs' = (cs', Some (a, s'))"
    by (auto split: prod.splits)
  moreover from Scanner.prems(1) have "ends_with Q (k out s)"
    by simp
  ultimately show ?case
    using Scanner.IH [OF rangeI rangeI] by blast
qed

lemma ends_with_mono:
  "ends_with P t \<Longrightarrow> (\<And>a s. P a s \<Longrightarrow> Q a s) \<Longrightarrow> ends_with Q t"
proof (induction t)
  case (Done a s)
  then show ?case by simp
next
  case (Fetch req s k)
  then show ?case using rangeI by (simp, blast)
next
  case (Scanner c s k)
  then show ?case using rangeI by (simp, blast)
qed

lemma ends_with_bind:
  "ends_with (\<lambda>a s. ends_with Q (g a s)) t \<Longrightarrow> ends_with Q (bind t g)"
proof (induction t)
  case (Done a s)
  then show ?case by simp
next
  case (Fetch req s k)
  then show ?case using rangeI by (simp, blast)
next
  case (Scanner c s k)
  then show ?case using rangeI by (simp, blast)
qed

lemma ends_with_lift:
  "ends_with (\<lambda>a p'. Q a (s\<lparr>player := Some p'\<rparr>)) t \<Longrightarrow> ends_with Q (lift t s)"
proof (induction t arbitrary: s)
  case (Done a p)
  then show ?case by simp
next
  case (Fetch req p k)
  have "ends_with Q (lift (k out p) (s\<lparr>player := Some p\<rparr>))" for out
  proof (rule Fetch.IH [OF rangeI rangeI])
    show "ends_with (\<lambda>a p'. Q a (s\<lparr>player := Some p, player := Some p'\<rparr>)) (k out p)"
      using Fetch.prems by simp
  qed
  then show ?case by (simp add: this_def)
next
  case (Scanner c p k)
  have "ends_with Q (lift (k out p) (s\<lparr>player := Some p\<rparr>))" for out
  proof (rule Scanner.IH [OF rangeI rangeI])
    show "ends_with (\<lambda>a p'. Q a (s\<lparr>player := Some p, player := Some p'\<rparr>)) (k out p)"
      using Scanner.prems by simp
  qed
  then show ?case by (simp add: this_def)
qed

lemma play_ends:
  "ends_with (\<lambda>r p'. case r of Inl e \<Rightarrow> True | Inr t \<Rightarrow> isPlaying p' \<and> currentTrack p' = Some t)
     (play uri dev p)"
  by (auto simp: play_def getTrackInfo_def task_defs Let_def split: settled.splits payload.splits)

lemma getDevices_ends: "ends_with (\<lambda>r p'. p' = p) (getDevices p)"
  by (auto simp: getDevices_def task_defs split: settled.splits payload.splits option.splits)

lemma handleScan_ends:
  assumes "player s = Some p"
  shows "ends_with (\<lambda>_ s'. \<not> contentHidden s' \<longrightarrow>
     (\<exists>p' t. player s' = Some p' \<and> isPlaying p' \<and> currentTrack p' = Some t \<and>
        trackNameText s' = track_name t \<and> artistNameText s' = artistString t \<and>
        trackYearText s' = year_text (year t) \<and> playIconHidden s' \<and> \<not> pauseIconHidden s'))
     (handleScan uri s)"
  using assms unfolding handleScan_def Let_def on_player_def
  apply (simp add: ui_defs)
  apply (rule ends_with_bind)
  apply (rule ends_with_lift)
  apply (rule ends_with_mono [OF play_ends])
  apply (auto simp: ui_defs on_player_def split: sum.splits
      intro!: ends_with_bind ends_with_lift ends_with_mono [OF getDevices_ends])
  done

lemma play_accepted:
  assumes "200 \<le> st" "st \<le> 299"
  shows "resume_with (FetchReply (Fulfilled (st, pl))) p1 (play uri dev p) =
     Some (await (getTrackInfo (index (split_on CHR '':'' uri) 2) (p1\<lparr>isPlaying := True\<rparr>))
       (\<lambda>t p3. return t (p3\<lparr>currentTrack := Some t\<rparr>)))"
  using assms by (simp add: play_def task_defs Let_def)

lemma getTrackInfo_request:
  "waiting_for (await (getTrackInfo trackId p) g) =
     Some (FetchCall \<lparr>url = ''https://api.spotify.com/v1/tracks/'' @ template trackId,
       http_method = GET, authorization = ''Bearer '' @ token p, body = NoBody\<rparr>) \<and>
   state_of (await (getTrackInfo trackId p) g) = p"
  by (simp add: getTrackInfo_def task_defs)

lemma track_arrives:
  "\<exists>r. resume_with (FetchReply out) p3
        (await (getTrackInfo trackId p2) (\<lambda>t p3. return t (p3\<lparr>currentTrack := Some t\<rparr>))) =
      Some (Done r (case r of Inl e \<Rightarrow> p3 | Inr t \<Rightarrow> p3\<lparr>currentTrack := Some t\<rparr>))"
  by (cases out) (auto simp: getTrackInfo_def task_defs split: payload.splits)

lemma handleScan_accepted:
  assumes "player s = Some q" "200 \<le> st" "st \<le> 299" "player s4 = Some p4"
  shows "\<exists>t2. resume_with (FetchReply (Fulfilled (st, pl))) s4 (handleScan uri s) = Some t2 \<and>
     state_of t2 = s4\<lparr>player := Some (p4\<lparr>isPlaying := True\<rparr>)\<rparr> \<and>
     (\<forall>st2 tj s5 p5. 200 \<le> st2 \<and> st2 \<le> 299 \<and> player s5 = Some p5 \<longrightarrow>
        (\<exists>s6. resume_with (FetchReply (Fulfilled (st2, TrackJson tj))) s5 t2 = Some (Done () s6) \<and>
           player s6 = Some (p5\<lparr>currentTrack := Some (track_of_json tj)\<rparr>) \<and>
           \<not> contentHidden s6 \<and>
           trackNameText s6 = track_name (track_of_json tj) \<and>
           artistNameText s6 = artistString (track_of_json tj) \<and>
           trackYearText s6 = year_text (year (track_of_json tj)) \<and>
           playIconHidden s6 \<and> \<not> pauseIconHidden s6))"
  using assms
  by (simp add: handleScan_def on_player_def play_def getTrackInfo_def task_defs ui_defs Let_def
      this_def)



section \<open>The sample session, step by step\<close>

lemma resumed_session_eq: "resumed_session = \<lparr>app_state = resumed_app, pending = []\<rparr>"
proof -
  have "app_state resumed_session = resumed_app"
    by code_simp
  moreover have "length (pending resumed_session) = 0"
    by code_simp
  ultimately show ?thesis
    by (cases resumed_session) simp
qed

lemma played_once_eq: "played_once = \<lparr>app_state = played_app, pending = []\<rparr>"
proof -
  have "app_state played_once = played_app"
    by code_simp
  moreover have "length (pending played_once) = 0"
    by code_simp
  ultimately show ?thesis
    by (cases played_once) simp
qed

lemma setup_session_eq: "setup_session = \<lparr>app_state = setup_app, pending = []\<rparr>"
proof -
  have "app_state setup_session = setup_app"
    by code_simp
  moreover have "length (pending setup_session) = 0"
    by code_simp
  ultimately show ?thesis
    by (cases setup_session) simp
qed

section \<open>Year extraction\<close>

text \<open>
  Claim C9. The year is the first four characters of the release date read by
  \<^verbatim>\<open>parseInt\<close>: \<^verbatim>\<open>"1975-03-01"\<close> and \<^verbatim>\<open>"1975"\<close> give 1975, an empty or absent date gives
  \<^verbatim>\<open>null\<close>, and so does a date with nothing to parse at its front. In general a
  non-empty date gives what \<^verbatim>\<open>parseInt\<close> makes of its first four characters; four
  leading digits give the number they spell.
\<close>

theorem extractYear_first_four_characters:
  "extractYear (Some ''1975-03-01'') = Some 1975 \<and>
   extractYear (Some ''1975'') = Some 1975 \<and>
   extractYear (Some []) = None \<and>
   extractYear None = None \<and>
   extractYear (Some ''unknown'') = None \<and>
   (\<forall>s. s \<noteq> [] \<longrightarrow> extractYear (Some s) = parseInt10 (take 4 s)) \<and>
   (\<forall>a b c d rest. is_digit a \<and> is_digit b \<and> is_digit c \<and> is_digit d \<longrightarrow>
      extractYear (Some (a # b # c # d # rest)) =
        Some (int (1000 * digit_value a + 100 * digit_value b + 10 * digit_value c + digit_value d))) \<and>
   (\<forall>a rest. \<not> is_digit a \<and> \<not> StrWhiteSpaceChar a \<and> a \<noteq> CHR ''+'' \<and> a \<noteq> CHR ''-'' \<longrightarrow>
      extractYear (Some (a # rest)) = None)"
proof -
  have examples:
    "extractYear (Some ''1975-03-01'') = Some 1975"
    "extractYear (Some ''1975'') = Some 1975"
    "extractYear (Some []) = None"
    "extractYear None = None"
    "extractYear (Some ''unknown'') = None"
    by (simp_all add: parse_defs StrWhiteSpaceChar_def is_digit_def digit_value_def)
  have general: "\<forall>s. s \<noteq> [] \<longrightarrow> extractYear (Some s) = parseInt10 (take 4 s)"
    by (simp add: extractYear_def truthy_def template_def)
  show ?thesis
    using examples general extractYear_four_digits extractYear_unparsable by blast
qed

theorem extractYear_first_four_characters_witness:
  "extractYear (Some ''2024-11-05'') = Some 2024 \<and> extractYear (Some ''n/a'') = None"
proof -
  have d: "is_digit CHR ''2'' \<and> is_digit CHR ''0'' \<and> is_digit CHR ''2'' \<and> is_digit CHR ''4''"
    by (simp add: is_digit_def)
  have n: "\<not> is_digit CHR ''n'' \<and> \<not> StrWhiteSpaceChar CHR ''n'' \<and> CHR ''n'' \<noteq> CHR ''+'' \<and>
      CHR ''n'' \<noteq> CHR ''-''"
    by (simp add: is_digit_def StrWhiteSpaceChar_def)
  from d n extractYear_first_four_characters
  have "extractYear (Some (CHR ''2'' # CHR ''0'' # CHR ''2'' # CHR ''4'' # ''-11-05'')) =
      Some (int (1000 * digit_value CHR ''2'' + 100 * digit_value CHR ''0'' +
        10 * digit_value CHR ''2'' + digit_value CHR ''4''))"
    and "extractYear (Some (CHR ''n'' # ''/a'')) = None"
    by blast+
  then show ?thesis by (simp add: digit_value_def)
qed

section \<open>Transferring playback\<close>

text \<open>
  Claim C10. \<^verbatim>\<open>transferPlayback\<close> leaves the player untouched while its request is in
  flight. When the request settles, the call either returns, which happens only for a
  response with a status from 200 to 299, and then the selected device id is the given
  one; or it throws, and then the player is exactly as it was at that moment, the
  selected device id included. No response outside 200 to 299 lets the call return.
\<close>

theorem transferPlayback_updates_device_only_on_success:
  "state_of (transferPlayback d fl p) = p \<and>
   (\<forall>out p'. \<exists>r p''.
      resume_with (FetchReply out) p' (transferPlayback d fl p) = Some (Done r p'') \<and>
      (case r of
         Inr u \<Rightarrow>
           (\<exists>st pl. out = Fulfilled (st, pl) \<and> 200 \<le> st \<and> st \<le> 299) \<and>
           p'' = p'\<lparr>selectedDeviceId := Some d\<rparr>
       | Inl e \<Rightarrow>
           (\<forall>st pl. out = Fulfilled (st, pl) \<longrightarrow> st < 200 \<or> 299 < st) \<and>
           p'' = p' \<and> selectedDeviceId p'' = selectedDeviceId p'))"
  by (auto simp add: transferPlayback_state transferPlayback_resume split: settled.splits)

theorem transferPlayback_updates_device_only_on_success_witness:
  "resume_with (FetchReply (Fulfilled (500, Unparsable [])))
      \<lparr>token = ''tok'', selectedDeviceId = Some ''old'', currentTrack = None, isPlaying = False\<rparr>
      (transferPlayback ''dev1'' False
        \<lparr>token = ''tok'', selectedDeviceId = Some ''old'', currentTrack = None, isPlaying = False\<rparr>) =
    Some (Done (Inl (Error ''Failed to transfer playback''))
      \<lparr>token = ''tok'', selectedDeviceId = Some ''old'', currentTrack = None, isPlaying = False\<rparr>)"
proof -
  let ?p = "\<lparr>token = ''tok'', selectedDeviceId = Some ''old'', currentTrack = None, isPlaying = False\<rparr>"
  note at_500 = transferPlayback_updates_device_only_on_success
    [of "''dev1''" False ?p, THEN conjunct2, THEN spec, THEN spec,
     of "Fulfilled (500, Unparsable [])" ?p]
  from at_500 show ?thesis
    by (simp add: transferPlayback_resume)
qed

section \<open>Transferring twice\<close>

text \<open>
  Claim C3, as stated, fails: \<^verbatim>\<open>transferPlayback\<close> has no check of the device already
  selected, so a second call with the same id sends a second transfer request. On the
  sample player, which already has \<^verbatim>\<open>dev1\<close> selected, one call sends one request and two
  calls send two.
\<close>

theorem transferPlayback_twice_counterexample:
  "fst (run (transferPlayback ''dev1'' False sample_player) [no_content, no_content]) =
     [FetchCall \<lparr>url = ''https://api.spotify.com/v1/me/player'', http_method = PUT,
        authorization = ''Bearer tok'', body = TransferBody ''dev1'' False\<rparr>] \<and>
   fst (run (transferPlayback_twice ''dev1'' False sample_player) [no_content, no_content]) =
     [FetchCall \<lparr>url = ''https://api.spotify.com/v1/me/player'', http_method = PUT,
        authorization = ''Bearer tok'', body = TransferBody ''dev1'' False\<rparr>,
      FetchCall \<lparr>url = ''https://api.spotify.com/v1/me/player'', http_method = PUT,
        authorization = ''Bearer tok'', body = TransferBody ''dev1'' False\<rparr>] \<and>
   selectedDeviceId sample_player = Some ''dev1''"
  by (simp add: transferPlayback_twice_def transferPlayback_def task_defs sample_player_def
      no_content_def)

text \<open>
  Claim C3, amended. Every call of \<^verbatim>\<open>transferPlayback\<close> sends exactly one transfer
  request for the given device, whatever device is selected already. When a call returns,
  the selected device id is the given one, and a further call that returns leaves the
  player as it is: the repetition changes nothing locally, but it is sent.
\<close>

theorem transferPlayback_one_request_per_call:
  "fst (run (transferPlayback d fl p) rs) =
     [FetchCall \<lparr>url = ''https://api.spotify.com/v1/me/player'', http_method = PUT,
        authorization = ''Bearer '' @ token p, body = TransferBody d fl\<rparr>] \<and>
   (\<forall>out p1. snd (run (transferPlayback d fl p) [FetchReply out]) = Some (Inr (), p1) \<longrightarrow>
      selectedDeviceId p1 = Some d \<and>
      run (transferPlayback d fl p1) [FetchReply out] =
        ([FetchCall \<lparr>url = ''https://api.spotify.com/v1/me/player'', http_method = PUT,
            authorization = ''Bearer '' @ token p, body = TransferBody d fl\<rparr>],
         Some (Inr (), p1)))"
proof -
  have "fst (run (transferPlayback d fl p) rs) =
     [FetchCall \<lparr>url = ''https://api.spotify.com/v1/me/player'', http_method = PUT,
        authorization = ''Bearer '' @ token p, body = TransferBody d fl\<rparr>]"
  proof (cases rs)
    case Nil
    then show ?thesis by (simp add: transferPlayback_def task_defs)
  next
    case (Cons r rs')
    then show ?thesis
      by (cases r) (simp_all add: transferPlayback_run, simp add: transferPlayback_def task_defs)
  qed
  then show ?thesis
    by (auto simp add: transferPlayback_run split: settled.splits if_splits)
qed

theorem transferPlayback_one_request_per_call_witness:
  "snd (run (transferPlayback ''dev1'' False sample_player) [no_content]) =
     Some (Inr (), sample_player) \<and>
   run (transferPlayback ''dev1'' False sample_player) [no_content] =
     ([FetchCall \<lparr>url = ''https://api.spotify.com/v1/me/player'', http_method = PUT,
         authorization = ''Bearer tok'', body = TransferBody ''dev1'' False\<rparr>],
      Some (Inr (), sample_player))"
proof -
  have first: "snd (run (transferPlayback ''dev1'' False sample_player)
      [FetchReply (Fulfilled (204, Unparsable ''Unexpected end of JSON input''))]) =
      Some (Inr (), sample_player)"
    by (simp add: transferPlayback_run sample_player_def)
  from transferPlayback_one_request_per_call [of "''dev1''" False sample_player "[]",
      THEN conjunct2, THEN spec, THEN spec, THEN mp, OF first]
  have "run (transferPlayback ''dev1'' False sample_player)
      [FetchReply (Fulfilled (204, Unparsable ''Unexpected end of JSON input''))] =
      ([FetchCall \<lparr>url = ''https://api.spotify.com/v1/me/player'', http_method = PUT,
          authorization = ''Bearer '' @ token sample_player, body = TransferBody ''dev1'' False\<rparr>],
       Some (Inr (), sample_player))"
    by simp
  with first show ?thesis
    by (simp add: no_content_def sample_player_def)
qed
section \<open>A play call answered with 404\<close>

lemma play_request:
  "waiting_for (play uri dev p) =
     Some (FetchCall \<lparr>url = ''https://api.spotify.com/v1/me/player/play'' @
         (if truthy (js_or dev (selectedDeviceId p))
          then ''?device_id='' @ template (js_or dev (selectedDeviceId p)) else []),
       http_method = PUT, authorization = ''Bearer '' @ token p, body = PlayBody uri\<rparr>)"
  by (simp add: play_def task_defs Let_def)

lemma play_state: "state_of (play uri dev p) = p"
  by (simp add: play_def task_defs Let_def)

lemma play_refused:
  assumes "st = 401 \<or> st = 403 \<or> st = 404"
  shows "resume_with (FetchReply (Fulfilled (st, pl))) p' (play uri dev p) =
     Some (Done (Inl (Error
       (if st = 401 then ''Token expired. Please log in again.''
        else if st = 403 then ''Premium required for playback control.''
        else ''No active device found. Open Spotify on a device first.''))) p')"
  using assms by (auto simp add: play_def task_defs Let_def)





section \<open>A play call answered with 401\<close>

text \<open>
  Claim C2 says that a 401 on a play call clears the stored token and the saved device
  and shows the login screen. The scan handler does none of it: \<^verbatim>\<open>apiRequest\<close> throws
  "Token expired. Please log in again.", the handler shows that text as a toast, and since
  the text names neither a device nor "No active", it ends there. Token, saved device and
  screen are as before. The start-up path \<^verbatim>\<open>initializePlayer\<close> does handle the same error:
  there a 401 clears both and shows the login screen.
\<close>

theorem handleScan_401_keeps_session:
  assumes "player s = Some p"
  shows "(\<exists>cs s'. run (handleScan uri s) (FetchReply (Fulfilled (401, pl)) # rs) = (cs, Some ((), s')) \<and>
        length cs = 1 \<and>
        storedToken s' = storedToken s \<and>
        localStorage_device s' = localStorage_device s \<and>
        screen s' = screen s \<and>
        toasts s' = toasts s @
          [\<lparr>toast_message = ''Loading track...'', toast_type = ''info'', toast_duration = 1500\<rparr>,
           \<lparr>toast_message = ''Token expired. Please log in again.'', toast_type = ''error'',
             toast_duration = 3000\<rparr>]) \<and>
     (\<exists>cs s'. run (initializePlayer tok s) (FetchReply (Fulfilled (401, pl)) # rs) = (cs, Some ((), s')) \<and>
        storedToken s' = None \<and>
        localStorage_device s' = None \<and>
        screen s' = ''login-screen'')"
proof -
  have scan: "\<exists>cs s'. run (handleScan uri s) (FetchReply (Fulfilled (401, pl)) # rs) = (cs, Some ((), s')) \<and>
        length cs = 1 \<and>
        storedToken s' = storedToken s \<and>
        localStorage_device s' = localStorage_device s \<and>
        screen s' = screen s \<and>
        toasts s' = toasts s @
          [\<lparr>toast_message = ''Loading track...'', toast_type = ''info'', toast_duration = 1500\<rparr>,
           \<lparr>toast_message = ''Token expired. Please log in again.'', toast_type = ''error'',
             toast_duration = 3000\<rparr>]"
    using assms
    by (simp add: handleScan_def on_player_def play_def task_defs ui_defs Let_def this_def)
  have init: "\<exists>cs s'. run (initializePlayer tok s) (FetchReply (Fulfilled (401, pl)) # rs) = (cs, Some ((), s')) \<and>
        storedToken s' = None \<and>
        localStorage_device s' = None \<and>
        screen s' = ''login-screen''"
    by (simp add: initializePlayer_def on_player_def getUserProfile_def SpotifyPlayer_def
        initialize_failed_def task_defs ui_defs store_defs Let_def this_def)
  from scan init show ?thesis by blast
qed

theorem handleScan_401_keeps_session_witness:
  "player (app_state played_once) =
     Some (sample_player\<lparr>currentTrack := Some (track_of_json (sample_track ''abc'' ''First'')),
       isPlaying := True\<rparr>) \<and>
   (\<exists>cs s'. run (handleScan ''spotify:track:xyz'' (app_state played_once)) [http_error 401] =
        (cs, Some ((), s')) \<and>
      storedToken s' = Some ''tok'' \<and>
      localStorage_device s' =
        Some (SavedJson \<lparr>saved_id = ''dev1'', saved_name = ''Kitchen'', saved_type = ''Speaker''\<rparr>) \<and>
      screen s' = ''player-screen'')"
proof -
  have p: "player (app_state played_once) =
     Some (sample_player\<lparr>currentTrack := Some (track_of_json (sample_track ''abc'' ''First'')),
       isPlaying := True\<rparr>)"
    by (simp add: played_once_eq played_app_def first_track_def)
  have before: "storedToken (app_state played_once) = Some ''tok''"
    "localStorage_device (app_state played_once) =
       Some (SavedJson \<lparr>saved_id = ''dev1'', saved_name = ''Kitchen'', saved_type = ''Speaker''\<rparr>)"
    "screen (app_state played_once) = ''player-screen''"
    by (simp_all add: played_once_eq played_app_def resumed_app_def fresh_app_def)
  from handleScan_401_keeps_session [OF p, of "''spotify:track:xyz''"
      "Unparsable ''Unexpected end of JSON input''" "[]" "''tok''", THEN conjunct1]
  show ?thesis
    using p before by (auto simp add: http_error_def)
qed
section \<open>Scans while a play request is in flight\<close>

text \<open>
  Claim C4, as stated, fails: \<^verbatim>\<open>handleScan\<close> keeps no record of a request in flight. In
  the sample session two scans in a row, the first still unanswered, leave two play
  requests in flight.
\<close>

theorem second_scan_counterexample:
  "map waiting_for (in_flight_plays
      (steps [Scan ''spotify:track:abc'', Scan ''spotify:track:xyz''] resumed_session)) =
     [Some (FetchCall \<lparr>url = ''https://api.spotify.com/v1/me/player/play?device_id=dev1'',
        http_method = PUT, authorization = ''Bearer tok'', body = PlayBody ''spotify:track:abc''\<rparr>),
      Some (FetchCall \<lparr>url = ''https://api.spotify.com/v1/me/player/play?device_id=dev1'',
        http_method = PUT, authorization = ''Bearer tok'', body = PlayBody ''spotify:track:xyz''\<rparr>)] \<and>
   length (in_flight_plays
      (steps [Scan ''spotify:track:abc'', Scan ''spotify:track:xyz''] resumed_session)) = 2"
  unfolding resumed_session_eq
  by code_simp

text \<open>
  Claim C4, amended. Once the player exists, every scan event that reaches \<^verbatim>\<open>handleScan\<close>
  sends a play request for its URI, whatever is in flight already: the requests in flight
  grow by one. What keeps a card held in view from being replayed is the scanner's own
  cooldown, which \<^verbatim>\<open>startScanning\<close> sets to 3000 ms.
\<close>

theorem every_scan_sends_a_play_request:
  "(\<forall>p. player (app_state c) = Some p \<longrightarrow>
      in_flight_plays (step (Scan uri) c) = in_flight_plays c @ [handleScan uri (app_state c)] \<and>
      length (in_flight_plays (step (Scan uri) c)) = Suc (length (in_flight_plays c)) \<and>
      waiting_for (handleScan uri (app_state c)) =
        Some (FetchCall \<lparr>url = ''https://api.spotify.com/v1/me/player/play'' @
            (if truthy (selectedDeviceId p) then ''?device_id='' @ template (selectedDeviceId p)
             else []),
          http_method = PUT, authorization = ''Bearer '' @ token p, body = PlayBody uri\<rparr>)) \<and>
   (\<forall>d. selectedDevice s = Some d \<longrightarrow>
      scanner (state_of (startScanning s)) = Some \<lparr>cooldownMs = 3000\<rparr>)"
proof -
  have scan: "in_flight_plays (step (Scan uri) c) = in_flight_plays c @ [handleScan uri (app_state c)] \<and>
      waiting_for (handleScan uri (app_state c)) =
        Some (FetchCall \<lparr>url = ''https://api.spotify.com/v1/me/player/play'' @
            (if truthy (selectedDeviceId p) then ''?device_id='' @ template (selectedDeviceId p)
             else []),
          http_method = PUT, authorization = ''Bearer '' @ token p, body = PlayBody uri\<rparr>)"
    if "player (app_state c) = Some p" for p
    using that
    by (simp add: in_flight_plays_def start_def is_play_request_def handleScan_def on_player_def
        play_def task_defs ui_defs Let_def js_or_def truthy_def)
  have cooldown: "scanner (state_of (startScanning s)) = Some \<lparr>cooldownMs = 3000\<rparr>"
    if "selectedDevice s = Some d" for d
    using that by (simp add: startScanning_def Let_def)
  from scan cooldown show ?thesis
    by simp
qed

theorem every_scan_sends_a_play_request_witness:
  "player (app_state resumed_session) = Some sample_player \<and>
   length (in_flight_plays (step (Scan ''spotify:track:abc'') resumed_session)) = 1 \<and>
   length (in_flight_plays
     (step (Scan ''spotify:track:xyz'') (step (Scan ''spotify:track:abc'') resumed_session))) = 2"
proof -
  let ?c1 = "step (Scan ''spotify:track:abc'') resumed_session"
  have p0: "player (app_state resumed_session) = Some sample_player"
    by (simp add: resumed_session_eq resumed_app_def)
  have p1: "player (app_state ?c1) = Some sample_player"
    unfolding resumed_session_eq by code_simp
  have none: "in_flight_plays resumed_session = []"
    by (simp add: resumed_session_eq in_flight_plays_def)
  from every_scan_sends_a_play_request [of resumed_session "''spotify:track:abc''",
      THEN conjunct1, THEN spec, THEN mp, OF p0]
  have one: "length (in_flight_plays ?c1) = Suc (length (in_flight_plays resumed_session))"
    by simp
  from every_scan_sends_a_play_request [of ?c1 "''spotify:track:xyz''",
      THEN conjunct1, THEN spec, THEN mp, OF p1]
  have two: "length (in_flight_plays (step (Scan ''spotify:track:xyz'') ?c1)) =
      Suc (length (in_flight_plays ?c1))"
    by simp
  from p0 none one two show ?thesis by simp
qed

section \<open>Playing state and current track\<close>

text \<open>
  Claim C1, as stated, fails: \<^verbatim>\<open>play\<close> sets \<^verbatim>\<open>isPlaying\<close> as soon as the play command is
  accepted and only then asks for the track, so while that second request is in flight
  the player is playing with the track of the round before. In the sample session the
  first track was paused and a second card scanned: after the play command is accepted
  \<^verbatim>\<open>isPlaying\<close> is true, \<^verbatim>\<open>currentTrack\<close> is still the first track, and the request for the
  second track is in flight. If that request then fails, the handler ends and the player
  stays so.
\<close>

theorem playing_with_stale_track_counterexample:
  "map_option isPlaying (player (app_state (steps [PauseClick, Settle 0 no_content] played_once))) =
     Some False \<and>
   map_option isPlaying (player (app_state second_play_accepted)) = Some True \<and>
   map_option currentTrack (player (app_state second_play_accepted)) = Some (Some first_track) \<and>
   map waiting_for (pending second_play_accepted) =
     [Some (FetchCall \<lparr>url = ''https://api.spotify.com/v1/tracks/xyz'', http_method = GET,
        authorization = ''Bearer tok'', body = NoBody\<rparr>)] \<and>
   map_option isPlaying
     (player (app_state (step (Settle 0 (http_error 500)) second_play_accepted))) = Some True \<and>
   map_option currentTrack
     (player (app_state (step (Settle 0 (http_error 500)) second_play_accepted))) =
     Some (Some first_track) \<and>
   length (pending (step (Settle 0 (http_error 500)) second_play_accepted)) = 0"
  unfolding second_play_accepted_def played_once_eq
  by code_simp

text \<open>
  What another handler can do in between: in the sample session a card is scanned, the
  play command is accepted, and a pause is clicked and answered while the track is still
  on its way. When the track arrives the display and the play button show it as playing,
  and \<^verbatim>\<open>isPlaying\<close> is false.
\<close>

lemma pause_answered_while_track_on_its_way:
  "map_option isPlaying (player (app_state
      (steps [Scan ''spotify:track:abc'', Settle 0 no_content, PauseClick, Settle 1 no_content,
              Settle 0 (FetchReply (Fulfilled (200, TrackJson (sample_track ''abc'' ''First''))))]
         resumed_session))) = Some False \<and>
   map_option currentTrack (player (app_state
      (steps [Scan ''spotify:track:abc'', Settle 0 no_content, PauseClick, Settle 1 no_content,
              Settle 0 (FetchReply (Fulfilled (200, TrackJson (sample_track ''abc'' ''First''))))]
         resumed_session))) = Some (Some first_track) \<and>
   trackNameText (app_state
      (steps [Scan ''spotify:track:abc'', Settle 0 no_content, PauseClick, Settle 1 no_content,
              Settle 0 (FetchReply (Fulfilled (200, TrackJson (sample_track ''abc'' ''First''))))]
         resumed_session)) = ''First'' \<and>
   \<not> contentHidden (app_state
      (steps [Scan ''spotify:track:abc'', Settle 0 no_content, PauseClick, Settle 1 no_content,
              Settle 0 (FetchReply (Fulfilled (200, TrackJson (sample_track ''abc'' ''First''))))]
         resumed_session)) \<and>
   \<not> pauseIconHidden (app_state
      (steps [Scan ''spotify:track:abc'', Settle 0 no_content, PauseClick, Settle 1 no_content,
              Settle 0 (FetchReply (Fulfilled (200, TrackJson (sample_track ''abc'' ''First''))))]
         resumed_session))"
  unfolding resumed_session_eq
  by code_simp

text \<open>
  Claim C1, amended. \<^verbatim>\<open>play\<close> sets \<^verbatim>\<open>isPlaying\<close> when the play command is accepted, and
  then asks for the track. When the track arrives, in whatever state the player is by
  then, \<^verbatim>\<open>play\<close> makes it the \<^verbatim>\<open>currentTrack\<close> and touches nothing else, and the scan handler
  at once shows that track on the now-playing display and the play button as playing: a
  scan that succeeds leaves the display showing the current track. \<^verbatim>\<open>isPlaying\<close> is then
  what it was when the track arrived; it is sure to be true only if no other handler ran
  between the two answers. In a sequence that no other handler interrupts, whenever
  \<^verbatim>\<open>play\<close> returns a track, \<^verbatim>\<open>isPlaying\<close> is true and \<^verbatim>\<open>currentTrack\<close> is that track; and the
  scan handler, which hides the display before it calls \<^verbatim>\<open>play\<close>, ends with the display
  visible only when the display and the play button show the current track of a playing
  player.
\<close>

theorem play_returns_with_its_track:
  "(\<forall>rs cs t p'. run (play uri dev p) rs = (cs, Some (Inr t, p')) \<longrightarrow>
      isPlaying p' \<and> currentTrack p' = Some t) \<and>
   (\<forall>q rs cs s'. player s = Some q \<and> run (handleScan uri s) rs = (cs, Some ((), s')) \<and>
        \<not> contentHidden s' \<longrightarrow>
      (\<exists>p' t. player s' = Some p' \<and> isPlaying p' \<and> currentTrack p' = Some t \<and>
         trackNameText s' = track_name t \<and> artistNameText s' = artistString t \<and>
         trackYearText s' = year_text (year t) \<and> playIconHidden s' \<and> \<not> pauseIconHidden s')) \<and>
   contentHidden (state_of (handleScan uri s)) \<and>
   (\<forall>st pl p1. 200 \<le> st \<and> st \<le> 299 \<longrightarrow>
      (\<exists>t2. resume_with (FetchReply (Fulfilled (st, pl))) p1 (play uri dev p) = Some t2 \<and>
         state_of t2 = p1\<lparr>isPlaying := True\<rparr> \<and>
         waiting_for t2 =
           Some (FetchCall \<lparr>url = ''https://api.spotify.com/v1/tracks/'' @
               template (index (split_on CHR '':'' uri) 2),
             http_method = GET, authorization = ''Bearer '' @ token p1, body = NoBody\<rparr>) \<and>
         (\<forall>out p3. \<exists>r. resume_with (FetchReply out) p3 t2 =
            Some (Done r (case r of Inl e \<Rightarrow> p3 | Inr t \<Rightarrow> p3\<lparr>currentTrack := Some t\<rparr>))))) \<and>
   (\<forall>q st pl s4 p4. player s = Some q \<and> 200 \<le> st \<and> st \<le> 299 \<and> player s4 = Some p4 \<longrightarrow>
      (\<exists>t2. resume_with (FetchReply (Fulfilled (st, pl))) s4 (handleScan uri s) = Some t2 \<and>
         state_of t2 = s4\<lparr>player := Some (p4\<lparr>isPlaying := True\<rparr>)\<rparr> \<and>
         (\<forall>st2 tj s5 p5. 200 \<le> st2 \<and> st2 \<le> 299 \<and> player s5 = Some p5 \<longrightarrow>
            (\<exists>s6. resume_with (FetchReply (Fulfilled (st2, TrackJson tj))) s5 t2 = Some (Done () s6) \<and>
               player s6 = Some (p5\<lparr>currentTrack := Some (track_of_json tj)\<rparr>) \<and>
               \<not> contentHidden s6 \<and>
               trackNameText s6 = track_name (track_of_json tj) \<and>
               artistNameText s6 = artistString (track_of_json tj) \<and>
               trackYearText s6 = year_text (year (track_of_json tj)) \<and>
               playIconHidden s6 \<and> \<not> pauseIconHidden s6))))"
proof -
  have gateway: "isPlaying p' \<and> currentTrack p' = Some t"
    if "run (play uri dev p) rs = (cs, Some (Inr t, p'))" for rs cs t p'
    using ends_with_run [OF play_ends that] by simp
  have handler: "\<exists>p' t. player s' = Some p' \<and> isPlaying p' \<and> currentTrack p' = Some t \<and>
         trackNameText s' = track_name t \<and> artistNameText s' = artistString t \<and>
         trackYearText s' = year_text (year t) \<and> playIconHidden s' \<and> \<not> pauseIconHidden s'"
    if "player s = Some q" "run (handleScan uri s) rs = (cs, Some ((), s'))" "\<not> contentHidden s'"
    for q rs cs s'
    using ends_with_run [OF handleScan_ends [OF that(1)] that(2)] that(3) by simp
  have hidden: "contentHidden (state_of (handleScan uri s))"
    by (cases "player s")
       (simp_all add: handleScan_def on_player_def play_def task_defs ui_defs Let_def)
  have accepted: "\<exists>t2. resume_with (FetchReply (Fulfilled (st, pl))) p1 (play uri dev p) = Some t2 \<and>
         state_of t2 = p1\<lparr>isPlaying := True\<rparr> \<and>
         waiting_for t2 =
           Some (FetchCall \<lparr>url = ''https://api.spotify.com/v1/tracks/'' @
               template (index (split_on CHR '':'' uri) 2),
             http_method = GET, authorization = ''Bearer '' @ token p1, body = NoBody\<rparr>) \<and>
         (\<forall>out p3. \<exists>r. resume_with (FetchReply out) p3 t2 =
            Some (Done r (case r of Inl e \<Rightarrow> p3 | Inr t \<Rightarrow> p3\<lparr>currentTrack := Some t\<rparr>)))"
    if "200 \<le> st" "st \<le> 299" for st pl p1
    using that track_arrives by (simp add: play_accepted getTrackInfo_request)
  have interrupted: "\<exists>t2. resume_with (FetchReply (Fulfilled (st, pl))) s4 (handleScan uri s) = Some t2 \<and>
         state_of t2 = s4\<lparr>player := Some (p4\<lparr>isPlaying := True\<rparr>)\<rparr> \<and>
         (\<forall>st2 tj s5 p5. 200 \<le> st2 \<and> st2 \<le> 299 \<and> player s5 = Some p5 \<longrightarrow>
            (\<exists>s6. resume_with (FetchReply (Fulfilled (st2, TrackJson tj))) s5 t2 = Some (Done () s6) \<and>
               player s6 = Some (p5\<lparr>currentTrack := Some (track_of_json tj)\<rparr>) \<and>
               \<not> contentHidden s6 \<and>
               trackNameText s6 = track_name (track_of_json tj) \<and>
               artistNameText s6 = artistString (track_of_json tj) \<and>
               trackYearText s6 = year_text (year (track_of_json tj)) \<and>
               playIconHidden s6 \<and> \<not> pauseIconHidden s6))"
    if "player s = Some q" "200 \<le> st" "st \<le> 299" "player s4 = Some p4" for q st pl s4 p4
    using that by (rule handleScan_accepted)
  from gateway handler hidden accepted interrupted show ?thesis
    by blast
qed

theorem play_returns_with_its_track_witness:
  "run (play ''spotify:track:abc'' None sample_player)
      [no_content, FetchReply (Fulfilled (200, TrackJson (sample_track ''abc'' ''First'')))] =
     ([FetchCall \<lparr>url = ''https://api.spotify.com/v1/me/player/play?device_id=dev1'',
         http_method = PUT, authorization = ''Bearer tok'', body = PlayBody ''spotify:track:abc''\<rparr>,
       FetchCall \<lparr>url = ''https://api.spotify.com/v1/tracks/abc'', http_method = GET,
         authorization = ''Bearer tok'', body = NoBody\<rparr>],
      Some (Inr first_track, sample_player\<lparr>currentTrack := Some first_track, isPlaying := True\<rparr>)) \<and>
   isPlaying (sample_player\<lparr>currentTrack := Some first_track, isPlaying := True\<rparr>) \<and>
   currentTrack (sample_player\<lparr>currentTrack := Some first_track, isPlaying := True\<rparr>) =
     Some first_track"
proof -
  have ran: "run (play ''spotify:track:abc'' None sample_player)
      [no_content, FetchReply (Fulfilled (200, TrackJson (sample_track ''abc'' ''First'')))] =
     ([FetchCall \<lparr>url = ''https://api.spotify.com/v1/me/player/play?device_id=dev1'',
         http_method = PUT, authorization = ''Bearer tok'', body = PlayBody ''spotify:track:abc''\<rparr>,
       FetchCall \<lparr>url = ''https://api.spotify.com/v1/tracks/abc'', http_method = GET,
         authorization = ''Bearer tok'', body = NoBody\<rparr>],
      Some (Inr first_track, sample_player\<lparr>currentTrack := Some first_track, isPlaying := True\<rparr>))"
    by (simp add: play_def getTrackInfo_def task_defs Let_def sample_player_def no_content_def
        first_track_def js_or_def truthy_def template_def index_def)
  from play_returns_with_its_track [of "''spotify:track:abc''" None sample_player,
      THEN conjunct1, THEN spec, THEN spec, THEN spec, THEN spec, THEN mp, OF ran]
  show ?thesis
    using ran by simp
qed

section \<open>The revealed flag\<close>

text \<open>
  Claim C7, as stated, fails in its first part: \<^verbatim>\<open>handleScan\<close> resets \<^verbatim>\<open>isYearRevealed\<close> as
  its first statement, before it calls \<^verbatim>\<open>play\<close>, so the flag is reset also when no new
  track is set. In the sample session the answer of the first round is revealed, then a
  card is scanned while no device is active: the play call fails, the current track is
  still the first one, and the flag is false again.
\<close>

theorem revealed_reset_without_new_track_counterexample:
  "isYearRevealed (app_state (step RevealClick played_once)) \<and>
   \<not> isYearRevealed (app_state second_play_refused) \<and>
   map_option currentTrack (player (app_state second_play_refused)) = Some (Some first_track) \<and>
   map_option currentTrack (player (app_state played_once)) = Some (Some first_track) \<and>
   length (pending second_play_refused) = 0"
  unfolding second_play_refused_def played_once_eq
  by code_simp

text \<open>
  Claim C7, amended. In every system that start-up and events can produce, an event
  leaves \<^verbatim>\<open>isYearRevealed\<close> as follows: a scan makes it false, at once and whether or not
  the play call will succeed; a reveal click makes it true; every other event, the
  answers of the outside world included, leaves it as it is. A second reveal changes
  nothing.
\<close>

theorem revealed_changes_only_by_scan_and_reveal:
  assumes "reachable c"
  shows "isYearRevealed (app_state (step e c)) =
       (case e of Scan _ \<Rightarrow> False | RevealClick \<Rightarrow> True | _ \<Rightarrow> isYearRevealed (app_state c)) \<and>
     handleReveal (handleReveal s) = handleReveal s \<and>
     isYearRevealed (handleReveal s)"
proof -
  from assms have "well_behaved c"
    by (rule reachable_well_behaved)
  then have "isYearRevealed (app_state (step e c)) =
       (case e of Scan _ \<Rightarrow> False | RevealClick \<Rightarrow> True | _ \<Rightarrow> isYearRevealed (app_state c))"
    by (rule revealed_after_step)
  moreover have "handleReveal (handleReveal s) = handleReveal s \<and> isYearRevealed (handleReveal s)"
    by (simp add: handleReveal_def ui_defs)
  ultimately show ?thesis
    by simp
qed

theorem revealed_changes_only_by_scan_and_reveal_witness:
  "isYearRevealed (app_state (step RevealClick played_once)) \<and>
   isYearRevealed (app_state (step PauseClick (step RevealClick played_once))) \<and>
   \<not> isYearRevealed (app_state (step (Scan ''spotify:track:xyz'') (step RevealClick played_once)))"
proof -
  have r0: "reachable played_once"
    by (rule reachable_played_once)
  then have r1: "reachable (step RevealClick played_once)"
    by (rule reachable.stepped)
  from revealed_changes_only_by_scan_and_reveal [OF r0, of RevealClick, THEN conjunct1]
  have a: "isYearRevealed (app_state (step RevealClick played_once))"
    by simp
  from revealed_changes_only_by_scan_and_reveal [OF r1, of PauseClick, THEN conjunct1] a
  have b: "isYearRevealed (app_state (step PauseClick (step RevealClick played_once)))"
    by simp
  from revealed_changes_only_by_scan_and_reveal [OF r1, of "Scan ''spotify:track:xyz''", THEN conjunct1]
  have c: "\<not> isYearRevealed (app_state (step (Scan ''spotify:track:xyz'') (step RevealClick played_once)))"
    by simp
  from a b c show ?thesis by simp
qed
section \<open>The start action\<close>

text \<open>
  Claim C6, as stated, fails: \<^verbatim>\<open>startScanning\<close> never calls \<^verbatim>\<open>transferPlayback\<close>. In the
  sample set-up a device is selected and the start button is enabled; the start action
  shows the player screen and starts the scanner, and the only call it makes is the
  scanner's start, no request to the remote service.
\<close>

theorem start_without_transfer_counterexample:
  "selectedDevice (app_state setup_session) = Some sample_device \<and>
   \<not> startBtnDisabled (app_state setup_session) \<and>
   fst (run (startScanning (app_state setup_session)) [ScannerReply (Fulfilled ())]) =
     [ScannerCall ScannerStart] \<and>
   filter is_transfer_request
     (fst (run (startScanning (app_state setup_session)) [ScannerReply (Fulfilled ())])) = [] \<and>
   screen (app_state (steps [StartClick, Settle 0 (ScannerReply (Fulfilled ()))] setup_session)) =
     ''player-screen''"
  unfolding setup_session_eq
  by code_simp

text \<open>
  An answer that comes too late: a refresh is in flight when the player screen is shown
  and left again, which replaces the device list and the start button. The late answer,
  an empty list, lands on the detached elements; the page's start button stays enabled.
  The same answer to the refresh of the new elements disables it.
\<close>

lemma late_refresh_leaves_the_page:
  "\<not> startBtnDisabled (app_state
      (steps [RefreshClick, StartClick, Settle 1 (ScannerReply (Fulfilled ())), ChangeDeviceClick,
              Settle 1 (ScannerReply (Fulfilled ())),
              Settle 0 (FetchReply (Fulfilled (200, DevicesJson (Some []))))]
         setup_session)) \<and>
   startBtnDisabled (app_state
      (steps [RefreshClick, StartClick, Settle 1 (ScannerReply (Fulfilled ())), ChangeDeviceClick,
              Settle 1 (ScannerReply (Fulfilled ())),
              Settle 1 (FetchReply (Fulfilled (200, DevicesJson (Some []))))]
         setup_session))"
  unfolding setup_session_eq
  by code_simp

text \<open>
  Claim C6, amended. The start action makes no request to the remote service: in every
  system that start-up and events can produce, no handler ever waits for a transfer
  request. With a device selected, the action shows the player screen with the device's
  name, creates the scanner and starts it. With none selected it only shows the warning
  "Please select a device first". On a page whose start button starts disabled, the
  button is enabled only while a device is selected.
\<close>

theorem start_shows_player_and_never_transfers:
  assumes "reachable c"
  shows "(\<not> startBtnDisabled (app_state c) \<longrightarrow> selectedDevice (app_state c) \<noteq> None) \<and>
     (\<forall>t \<in> set (pending c). \<forall>call. waiting_for t = Some call \<longrightarrow> \<not> is_transfer_request call) \<and>
     (selectedDevice (app_state c) = None \<longrightarrow>
        step StartClick c =
          c\<lparr>app_state := showToast ''Please select a device first'' ''warning'' 3000 (app_state c)\<rparr>) \<and>
     (\<forall>d. selectedDevice (app_state c) = Some d \<longrightarrow>
        screen (app_state (step StartClick c)) = ''player-screen'' \<and>
        deviceNameText (app_state (step StartClick c)) = (if dev_name d = [] then ''---'' else dev_name d) \<and>
        scanner (app_state (step StartClick c)) = Some \<lparr>cooldownMs = 3000\<rparr> \<and>
        map waiting_for (pending (step StartClick c)) =
          map waiting_for (pending c) @ [Some (ScannerCall ScannerStart)] \<and>
        (\<forall>rs. fst (run (startScanning (app_state c)) rs) = [ScannerCall ScannerStart]))"
proof -
  from assms have wb: "well_behaved c"
    by (rule reachable_well_behaved)
  then have button: "\<not> startBtnDisabled (app_state c) \<longrightarrow> selectedDevice (app_state c) \<noteq> None"
    by (auto simp: well_behaved_def start_guard_def)
  have calls: "\<not> is_transfer_request call"
    if "t \<in> set (pending c)" "waiting_for t = Some call" for t call
    using wb that upholds_waiting [of no_transfer handler_step t call]
    by (auto simp: well_behaved_def no_transfer_def)
  have none: "step StartClick c =
      c\<lparr>app_state := showToast ''Please select a device first'' ''warning'' 3000 (app_state c)\<rparr>"
    if "selectedDevice (app_state c) = None"
    using that by (simp add: startScanning_def start_def)
  have some: "screen (app_state (step StartClick c)) = ''player-screen'' \<and>
        deviceNameText (app_state (step StartClick c)) = (if dev_name d = [] then ''---'' else dev_name d) \<and>
        scanner (app_state (step StartClick c)) = Some \<lparr>cooldownMs = 3000\<rparr> \<and>
        map waiting_for (pending (step StartClick c)) =
          map waiting_for (pending c) @ [Some (ScannerCall ScannerStart)]"
    if "selectedDevice (app_state c) = Some d" for d
    using that
    by (simp add: startScanning_def start_def ui_defs Let_def js_or_def truthy_def template_def)
  have only: "fst (run (startScanning (app_state c)) rs) = [ScannerCall ScannerStart]"
    if "selectedDevice (app_state c) = Some d" for d rs
  proof (cases rs)
    case Nil
    with that show ?thesis by (simp add: startScanning_def Let_def)
  next
    case (Cons r rs')
    with that show ?thesis
      by (cases r; cases "case r of ScannerReply x \<Rightarrow> x")
         (simp_all add: startScanning_def Let_def)
  qed
  from button calls none some only show ?thesis
    by blast
qed

theorem start_shows_player_and_never_transfers_witness:
  "selectedDevice (app_state setup_session) = Some sample_device \<and>
   screen (app_state (step StartClick setup_session)) = ''player-screen'' \<and>
   deviceNameText (app_state (step StartClick setup_session)) = ''Kitchen'' \<and>
   map waiting_for (pending (step StartClick setup_session)) = [Some (ScannerCall ScannerStart)]"
proof -
  have r: "reachable setup_session"
    by (rule reachable_setup_session)
  have d: "selectedDevice (app_state setup_session) = Some sample_device"
    by (simp add: setup_session_eq setup_app_def)
  from start_shows_player_and_never_transfers [OF r, THEN conjunct2, THEN conjunct2,
      THEN conjunct2, THEN spec, THEN mp, OF d]
  show ?thesis
    using d by (simp add: setup_session_eq sample_device_def)
qed

section \<open>Setting the volume\<close>








end
